theory Spec2Isabelle
  imports Complex_Main "HOL-Library.Log_Nat"
begin

section \<open>Python values\<close>

text \<open>
  The emission engine works on Python dictionaries keyed by strings and on floats.
  A dictionary is a map from strings; a float is read as the real number its formula
  denotes (decimal literals are exact rationals, and the rounding of binary
  floating point is outside this development). A pint quantity is held as its magnitude
  in the unit the code gives it: kilograms for masses and emissions, kWh for energy.
  Subscripting a dictionary with a key it lacks raises \<open>KeyError\<close>, which is the exception
  the two treatment processes can meet on a stream whose mass is a mass and whose
  composition is a dictionary of dictionaries of numbers.
\<close>

datatype py_error = KeyError string

type_synonym 'a result = "py_error + 'a"

type_synonym factor_set = "string \<rightharpoonup> real"

type_synonym waste_composition = "string \<rightharpoonup> (string \<rightharpoonup> real)"

type_synonym scenario = "string \<rightharpoonup> real"

type_synonym emissions = "string \<rightharpoonup> real"

definition bind_result :: "'a result \<Rightarrow> ('a \<Rightarrow> 'b result) \<Rightarrow> 'b result" where
  "bind_result r k = (case r of Inl e \<Rightarrow> Inl e | Inr v \<Rightarrow> k v)"

text \<open>\<^verbatim>\<open>d.get(k, default)\<close>\<close>

definition dict_get :: "(string \<rightharpoonup> 'a) \<Rightarrow> string \<Rightarrow> 'a \<Rightarrow> 'a" where
  "dict_get d k dflt = (case d k of None \<Rightarrow> dflt | Some v \<Rightarrow> v)"

text \<open>\<^verbatim>\<open>d[k]\<close>\<close>

definition getitem :: "(string \<rightharpoonup> 'a) \<Rightarrow> string \<Rightarrow> 'a result" where
  "getitem d k = (case d k of None \<Rightarrow> Inl (KeyError k) | Some v \<Rightarrow> Inr v)"

text \<open>\<^verbatim>\<open>d[k] *= x\<close> on a dictionary held by value: the updated dictionary, or the error.\<close>

definition imul :: "(string \<rightharpoonup> real) \<Rightarrow> string \<Rightarrow> real \<Rightarrow> (string \<rightharpoonup> real) result" where
  "imul d k x = bind_result (getitem d k) (\<lambda>v. Inr (d(k \<mapsto> v * x)))"

section \<open>config.py\<close>

definition EMISSION_FACTORS_INCINERATION :: factor_set where
  "EMISSION_FACTORS_INCINERATION = map_of
    [(''carbon_content_fossil'', 0.097),
     (''carbon_content_biogenic'', 0.054),
     (''energy_content'', 5.3),
     (''nitrogen_frac_organic'', 9.1 / 10 ^ 6),
     (''sulfur_frac_organic'', 0.0002),
     (''so2_conversion'', 0.85),
     (''pm10_per_organic'', 0.000031),
     (''pm25_per_organic'', 0.0000217),
     (''nox_per_waste'', 4.3 / 10 ^ 6),
     (''hg_volatilization'', 4.65 / 10 ^ 5),
     (''pb_volatilization'', 6.218 / 10 ^ 4),
     (''combustion_efficiency'', 0.97),
     (''excess_air_ratio'', 1.4)]"

definition EMISSION_FACTORS_PYROLYSIS :: factor_set where
  "EMISSION_FACTORS_PYROLYSIS = map_of
    [(''co2_fossil_per_organic'', 0.06887),
     (''ch4_fossil_per_organic'', 0.004),
     (''nmvoc_per_organic'', 0.000645),
     (''pahs_per_organic'', 0.000179),
     (''dioxin_per_chlorinated'', 3.71 / 10 ^ 13),
     (''hg_per_mercury'', 0.86 / 10 ^ 6),
     (''pb_per_heavy_metal'', 0.45 / 10 ^ 6)]"

definition DEFAULT_COMPOSITION :: waste_composition where
  "DEFAULT_COMPOSITION = map_of
    [(''general_waste'', map_of [(''non_hazardous'', 0.65)]),
     (''infectious_waste'', map_of [(''body_fluids'', 0.12), (''lab_cultures'', 0.06)]),
     (''sharps_waste'', map_of
        [(''needles_sharps_plastic'', 0.02), (''needles_sharps_metal'', 0.02)]),
     (''pharmaceutical_waste'', map_of
        [(''pharmaceuticals'', 0.04), (''pharmaceuticals_halogenated'', 0.01)]),
     (''chemical_waste'', map_of
        [(''lab_reagents'', 0.03), (''lab_cultures_disinfectants'', 0.005),
         (''cytotoxic_organic'', 0.015), (''cytotoxic_halogenated'', 0.005)]),
     (''heavy_metals_waste'', map_of
        [(''mercury_waste'', 0.015), (''other_heavy_metals'', 0.015)]),
     (''radioactive_waste'', map_of
        [(''radioactive_metals'', 0.005), (''radioactive_organic'', 0.002)])]"

section \<open>waste\_stream.py\<close>

text \<open>
  \<open>mass\<close> is the magnitude of the stream's mass in kilograms, the number
  \<^verbatim>\<open>waste.mass.to("kg").magnitude\<close> that both processes compute with.
\<close>

record waste_stream =
  mass :: real
  composition :: waste_composition

text \<open>
  The entry of a subcategory, if the composition has one: \<open>sub\<close> is in
  \<^verbatim>\<open>new_comp.get(cat, {})\<close> exactly when this is not \<open>None\<close>.
\<close>

definition entry :: "waste_composition \<Rightarrow> string \<Rightarrow> string \<Rightarrow> real option" where
  "entry new_comp cat sub = dict_get new_comp cat Map.empty sub"

text \<open>
  \<^verbatim>\<open>if sub in new_comp.get(cat, {}): new_comp[cat][sub] *= x\<close>, on the copy of the
  composition.
\<close>

definition scale_if_present ::
  "waste_composition \<Rightarrow> string \<Rightarrow> string \<Rightarrow> real \<Rightarrow> waste_composition" where
  "scale_if_present new_comp cat sub x =
     (case entry new_comp cat sub of
        None \<Rightarrow> new_comp
      | Some v \<Rightarrow> new_comp(cat \<mapsto> (dict_get new_comp cat Map.empty)(sub \<mapsto> v * x)))"

definition adjust_for_segregation :: "waste_stream \<Rightarrow> real \<Rightarrow> waste_stream" where
  "adjust_for_segregation self efficiency =
     (let new_comp = composition self;
          new_comp = scale_if_present new_comp
            ''sharps_waste'' ''needles_sharps_plastic'' (1 - efficiency);
          new_comp = scale_if_present new_comp
            ''chemical_waste'' ''cytotoxic_organic'' (1 - efficiency);
          new_comp = scale_if_present new_comp
            ''chemical_waste'' ''lab_reagents'' (1 - efficiency)
      in \<lparr>mass = mass self, composition = new_comp\<rparr>)"

section \<open>Composition terms shared by the processes\<close>

text \<open>\<^verbatim>\<open>waste.composition.get(cat, {}).get(sub, 0)\<close>\<close>

definition fraction :: "waste_composition \<Rightarrow> string \<Rightarrow> string \<Rightarrow> real" where
  "fraction wc cat sub = dict_get (dict_get wc cat Map.empty) sub 0"

text \<open>The seven-term sum both processes write out.\<close>

definition total_organic :: "waste_composition \<Rightarrow> real" where
  "total_organic wc =
     fraction wc ''general_waste'' ''non_hazardous'' +
     fraction wc ''infectious_waste'' ''body_fluids'' +
     fraction wc ''infectious_waste'' ''lab_cultures'' +
     fraction wc ''pharmaceutical_waste'' ''pharmaceuticals'' +
     fraction wc ''chemical_waste'' ''cytotoxic_organic'' +
     fraction wc ''radioactive_waste'' ''radioactive_organic'' +
     fraction wc ''sharps_waste'' ''needles_sharps_plastic''"

definition fossil_organic :: "waste_composition \<Rightarrow> real" where
  "fossil_organic wc = fraction wc ''sharps_waste'' ''needles_sharps_plastic''"

definition biogenic_organic :: "waste_composition \<Rightarrow> real" where
  "biogenic_organic wc = total_organic wc - fossil_organic wc"

definition total_chlor :: "waste_composition \<Rightarrow> real" where
  "total_chlor wc =
     fraction wc ''pharmaceutical_waste'' ''pharmaceuticals_halogenated'' +
     fraction wc ''chemical_waste'' ''cytotoxic_halogenated''"

section \<open>processes/incineration.py\<close>

text \<open>
  The two \<^verbatim>\<open>logging.debug\<close> calls of each method format their arguments and do nothing
  else to them; they are left out.
\<close>

text \<open>
  The scenario step, on the private copy \<open>f\<close> of the factors:
  \<^verbatim>\<open>if scenario and "incineration_flue_gas_efficiency" in scenario: ...\<close>.
  A scenario that is \<open>None\<close> or empty is falsy and skips the step.
\<close>

definition flue_gas_efficiency :: "scenario option \<Rightarrow> real option" where
  "flue_gas_efficiency scenario =
     (case scenario of None \<Rightarrow> None
      | Some sc \<Rightarrow> sc ''incineration_flue_gas_efficiency'')"

definition apply_scenario :: "factor_set \<Rightarrow> scenario option \<Rightarrow> factor_set result" where
  "apply_scenario f scenario =
     (case flue_gas_efficiency scenario of
        None \<Rightarrow> Inr f
      | Some efficiency \<Rightarrow>
          bind_result (imul f ''pm10_per_organic'' (1 - efficiency)) (\<lambda>f.
          bind_result (imul f ''pm25_per_organic'' (1 - efficiency)) (\<lambda>f.
          imul f ''nox_per_waste'' (1 - efficiency))))"

text \<open>\<^verbatim>\<open>energy = mass_q * f["energy_content"]\<close>\<close>

definition incineration_energy :: "factor_set \<Rightarrow> waste_stream \<Rightarrow> real result" where
  "incineration_energy f waste =
     bind_result (getitem f ''energy_content'') (\<lambda>energy_content.
     Inr (mass waste * energy_content))"

text \<open>
  The emissions dictionary, its entries evaluated in the order of the literal, and then
  the combustion penalty.
\<close>

definition combustion_penalty :: "factor_set \<Rightarrow> emissions \<Rightarrow> emissions result" where
  "combustion_penalty f emissions =
     (if dict_get f ''combustion_efficiency'' 1.0 < 0.95 then
        bind_result (getitem f ''combustion_efficiency'') (\<lambda>combustion_efficiency.
        let penalty = (0.95 - combustion_efficiency) * 2 in
        bind_result (imul emissions ''pm10'' (1 + penalty)) (\<lambda>emissions.
        imul emissions ''pm25'' (1 + penalty)))
      else Inr emissions)"

definition incineration_formulas :: "factor_set \<Rightarrow> waste_stream \<Rightarrow> emissions result" where
  "incineration_formulas f waste =
     (let wc = composition waste;
          mass_q = mass waste
      in
      bind_result (incineration_energy f waste) (\<lambda>energy.
      bind_result (getitem f ''carbon_content_fossil'') (\<lambda>carbon_content_fossil.
      bind_result (getitem f ''carbon_content_biogenic'') (\<lambda>carbon_content_biogenic.
      bind_result (getitem f ''so2_conversion'') (\<lambda>so2_conversion.
      bind_result (getitem f ''nox_per_waste'') (\<lambda>nox_per_waste.
      bind_result (getitem f ''pm10_per_organic'') (\<lambda>pm10_per_organic.
      bind_result (getitem f ''pm25_per_organic'') (\<lambda>pm25_per_organic.
      bind_result (getitem f ''hg_volatilization'') (\<lambda>hg_volatilization.
      bind_result (getitem f ''pb_volatilization'') (\<lambda>pb_volatilization.
      combustion_penalty f
        [''co2_fossil'' \<mapsto> fossil_organic wc * energy * carbon_content_fossil * (44 / 12),
         ''co2_biogenic'' \<mapsto>
            biogenic_organic wc * energy * carbon_content_biogenic * (44 / 12),
         ''so2'' \<mapsto> total_organic wc * mass_q * so2_conversion * (64 / 32),
         ''nox'' \<mapsto> mass_q * nox_per_waste,
         ''pm10'' \<mapsto> mass_q * total_organic wc * pm10_per_organic,
         ''pm25'' \<mapsto> mass_q * total_organic wc * pm25_per_organic,
         ''hg'' \<mapsto> mass_q * fraction wc ''heavy_metals_waste'' ''mercury_waste''
                    * hg_volatilization,
         ''pb'' \<mapsto> mass_q * fraction wc ''heavy_metals_waste'' ''other_heavy_metals''
                    * pb_volatilization]))))))))))"

text \<open>
  \<open>IncinerationProcess.calculate_direct_emissions\<close>, given the value of
  \<open>self.factors\<close>: the copy, the scenario step on the copy, the formulas.
\<close>

definition incineration_calculate_direct_emissions ::
  "factor_set \<Rightarrow> waste_stream \<Rightarrow> scenario option \<Rightarrow> emissions result" where
  "incineration_calculate_direct_emissions factors waste scenario =
     bind_result (apply_scenario factors scenario) (\<lambda>f. incineration_formulas f waste)"

section \<open>processes/pyrolysis.py\<close>

definition pyrolysis_calculate_direct_emissions ::
  "factor_set \<Rightarrow> waste_stream \<Rightarrow> scenario option \<Rightarrow> emissions result" where
  "pyrolysis_calculate_direct_emissions f waste scenario =
     (let wc = composition waste;
          m = mass waste
      in
      bind_result (getitem f ''co2_fossil_per_organic'') (\<lambda>co2_fossil_per_organic.
      bind_result (getitem f ''ch4_fossil_per_organic'') (\<lambda>ch4_fossil_per_organic.
      bind_result (getitem f ''nmvoc_per_organic'') (\<lambda>nmvoc_per_organic.
      bind_result (getitem f ''pahs_per_organic'') (\<lambda>pahs_per_organic.
      bind_result (getitem f ''dioxin_per_chlorinated'') (\<lambda>dioxin_per_chlorinated.
      bind_result (getitem f ''hg_per_mercury'') (\<lambda>hg_per_mercury.
      bind_result (getitem f ''pb_per_heavy_metal'') (\<lambda>pb_per_heavy_metal.
      Inr [''co2_fossil'' \<mapsto> m * total_organic wc * co2_fossil_per_organic,
           ''ch4_fossil'' \<mapsto> m * total_organic wc * ch4_fossil_per_organic,
           ''nmvoc'' \<mapsto> m * total_organic wc * nmvoc_per_organic,
           ''pahs'' \<mapsto> m * total_organic wc * pahs_per_organic,
           ''dioxin'' \<mapsto> m * total_chlor wc * dioxin_per_chlorinated,
           ''hg'' \<mapsto> m * fraction wc ''heavy_metals_waste'' ''mercury_waste''
                      * hg_per_mercury,
           ''pb'' \<mapsto> m * fraction wc ''heavy_metals_waste'' ''other_heavy_metals''
                      * pb_per_heavy_metal]))))))))"

section \<open>The two process classes behind one method\<close>

datatype process_kind = Incineration | Pyrolysis

definition calculate_direct_emissions ::
  "process_kind \<Rightarrow> factor_set \<Rightarrow> waste_stream \<Rightarrow> scenario option \<Rightarrow> emissions result" where
  "calculate_direct_emissions kind factors waste scenario =
     (case kind of
        Incineration \<Rightarrow> incineration_calculate_direct_emissions factors waste scenario
      | Pyrolysis \<Rightarrow> pyrolysis_calculate_direct_emissions factors waste scenario)"

text \<open>The factor names each process subscripts; \<open>combustion_efficiency\<close> is read with a default.\<close>

definition incineration_keys :: "string set" where
  "incineration_keys =
     {''energy_content'', ''carbon_content_fossil'', ''carbon_content_biogenic'',
      ''so2_conversion'', ''nox_per_waste'', ''pm10_per_organic'', ''pm25_per_organic'',
      ''hg_volatilization'', ''pb_volatilization''}"

definition pyrolysis_keys :: "string set" where
  "pyrolysis_keys =
     {''co2_fossil_per_organic'', ''ch4_fossil_per_organic'', ''nmvoc_per_organic'',
      ''pahs_per_organic'', ''dioxin_per_chlorinated'', ''hg_per_mercury'',
      ''pb_per_heavy_metal''}"

definition required_keys :: "process_kind \<Rightarrow> string set" where
  "required_keys kind =
     (case kind of Incineration \<Rightarrow> incineration_keys | Pyrolysis \<Rightarrow> pyrolysis_keys)"

section \<open>The methods on a store of objects\<close>

text \<open>
  \<open>self.factors\<close> is a reference to a dictionary that every call on the process shares,
  and \<open>waste\<close> a reference to the caller's stream. Here the dictionaries and streams
  live in a store, addressed by position; \<open>copy.deepcopy\<close> allocates a new dictionary,
  and \<open>f[k] *= x\<close> writes to the dictionary \<open>f\<close> refers to. The emissions dictionary
  is built by the call and handed to the caller, so it is returned by value.
\<close>

type_synonym addr = nat

record store =
  dicts :: "factor_set list"
  streams :: "waste_stream list"

record treatment_process =
  kind :: process_kind
  name :: string
  factors :: addr

definition copy_deepcopy :: "addr \<Rightarrow> store \<Rightarrow> addr \<times> store" where
  "copy_deepcopy a s = (length (dicts s), s\<lparr>dicts := dicts s @ [dicts s ! a]\<rparr>)"

definition store_imul :: "addr \<Rightarrow> string \<Rightarrow> real \<Rightarrow> store \<Rightarrow> unit result \<times> store" where
  "store_imul f k x s =
     (case imul (dicts s ! f) k x of
        Inl e \<Rightarrow> (Inl e, s)
      | Inr d \<Rightarrow> (Inr (), s\<lparr>dicts := (dicts s)[f := d]\<rparr>))"

definition incineration_on_store ::
  "treatment_process \<Rightarrow> addr \<Rightarrow> scenario option \<Rightarrow> store \<Rightarrow> emissions result \<times> store" where
  "incineration_on_store self waste scenario s =
     (let (f, s) = copy_deepcopy (factors self) s in
      case flue_gas_efficiency scenario of
        None \<Rightarrow> (incineration_formulas (dicts s ! f) (streams s ! waste), s)
      | Some efficiency \<Rightarrow>
         (case store_imul f ''pm10_per_organic'' (1 - efficiency) s of
            (Inl e, s) \<Rightarrow> (Inl e, s)
          | (Inr _, s) \<Rightarrow>
         (case store_imul f ''pm25_per_organic'' (1 - efficiency) s of
            (Inl e, s) \<Rightarrow> (Inl e, s)
          | (Inr _, s) \<Rightarrow>
         (case store_imul f ''nox_per_waste'' (1 - efficiency) s of
            (Inl e, s) \<Rightarrow> (Inl e, s)
          | (Inr _, s) \<Rightarrow>
              (incineration_formulas (dicts s ! f) (streams s ! waste), s)))))"

text \<open>Pyrolysis binds \<open>f\<close> to \<open>self.factors\<close> itself and only reads it.\<close>

definition pyrolysis_on_store ::
  "treatment_process \<Rightarrow> addr \<Rightarrow> scenario option \<Rightarrow> store \<Rightarrow> emissions result \<times> store" where
  "pyrolysis_on_store self waste scenario s =
     (let f = factors self in
      (pyrolysis_calculate_direct_emissions (dicts s ! f) (streams s ! waste) scenario, s))"

definition calculate_direct_emissions_on_store ::
  "treatment_process \<Rightarrow> addr \<Rightarrow> scenario option \<Rightarrow> store \<Rightarrow> emissions result \<times> store" where
  "calculate_direct_emissions_on_store self waste scenario s =
     (case kind self of
        Incineration \<Rightarrow> incineration_on_store self waste scenario s
      | Pyrolysis \<Rightarrow> pyrolysis_on_store self waste scenario s)"

section \<open>The same arithmetic in binary64\<close>

text \<open>
  A Python float is an IEEE 754 binary64 number, and every \<^verbatim>\<open>+\<close>, \<^verbatim>\<open>-\<close>, \<^verbatim>\<open>*\<close>, \<^verbatim>\<open>/\<close> on
  floats and every decimal literal is the exact result rounded to the nearest binary64
  number, ties to the even significand. \<open>binary64 x\<close> is that rounding of the real
  \<open>x\<close>: 53 significant bits at the exponent of \<open>x\<close>, and multiples of \<open>2 ^ -1074\<close> in
  the subnormal range. A result of magnitude \<open>2 ^ 1024\<close> or more, which Python turns into
  \<open>inf\<close>, is beyond what these definitions describe; nothing below comes near it.
\<close>

text \<open>\<open>ilog2 x\<close> is the exponent of a positive \<open>x\<close>: \<open>2 ^ ilog2 x \<le> x < 2 ^ (ilog2 x + 1)\<close>.\<close>

definition ilog2 :: "real \<Rightarrow> int" where
  "ilog2 x = (if 1 \<le> x then bitlen \<lfloor>x\<rfloor> - 1 else - bitlen (\<lceil>1 / x\<rceil> - 1))"

definition round_half_even :: "real \<Rightarrow> int" where
  "round_half_even y =
     (let n = \<lfloor>y\<rfloor> in
      if y - of_int n < 1 / 2 then n
      else if 1 / 2 < y - of_int n then n + 1
      else if even n then n else n + 1)"

definition binary64 :: "real \<Rightarrow> real" where
  "binary64 x =
     (if x = 0 then 0
      else let e = max (ilog2 \<bar>x\<bar> - 52) (- 1074)
           in of_int (round_half_even (x / 2 powi e)) * 2 powi e)"

definition float_add :: "real \<Rightarrow> real \<Rightarrow> real" where
  "float_add a b = binary64 (a + b)"

definition float_sub :: "real \<Rightarrow> real \<Rightarrow> real" where
  "float_sub a b = binary64 (a - b)"

definition float_mul :: "real \<Rightarrow> real \<Rightarrow> real" where
  "float_mul a b = binary64 (a * b)"

definition float_truediv :: "real \<Rightarrow> real \<Rightarrow> real" where
  "float_truediv a b = binary64 (a / b)"

text \<open>A table of decimal literals as Python holds it: every entry rounded.\<close>

definition floats :: "(string \<rightharpoonup> real) \<Rightarrow> (string \<rightharpoonup> real)" where
  "floats d = (\<lambda>k. map_option binary64 (d k))"

definition float_composition :: "waste_composition \<Rightarrow> waste_composition" where
  "float_composition wc = (\<lambda>cat. map_option floats (wc cat))"

text \<open>\<^verbatim>\<open>d[k] *= x\<close>\<close>

definition float_imul :: "(string \<rightharpoonup> real) \<Rightarrow> string \<Rightarrow> real \<Rightarrow> (string \<rightharpoonup> real) result" where
  "float_imul d k x = bind_result (getitem d k) (\<lambda>v. Inr (d(k \<mapsto> float_mul v x)))"

subsection \<open>waste\_stream.py\<close>

definition float_scale_if_present ::
  "waste_composition \<Rightarrow> string \<Rightarrow> string \<Rightarrow> real \<Rightarrow> waste_composition" where
  "float_scale_if_present new_comp cat sub x =
     (case entry new_comp cat sub of
        None \<Rightarrow> new_comp
      | Some v \<Rightarrow>
          new_comp(cat \<mapsto> (dict_get new_comp cat Map.empty)(sub \<mapsto> float_mul v x)))"

definition float_adjust_for_segregation :: "waste_stream \<Rightarrow> real \<Rightarrow> waste_stream" where
  "float_adjust_for_segregation self efficiency =
     (let new_comp = composition self;
          new_comp = float_scale_if_present new_comp
            ''sharps_waste'' ''needles_sharps_plastic'' (float_sub 1 efficiency);
          new_comp = float_scale_if_present new_comp
            ''chemical_waste'' ''cytotoxic_organic'' (float_sub 1 efficiency);
          new_comp = float_scale_if_present new_comp
            ''chemical_waste'' ''lab_reagents'' (float_sub 1 efficiency)
      in \<lparr>mass = mass self, composition = new_comp\<rparr>)"

subsection \<open>processes/incineration.py\<close>

text \<open>The seven-term sum, added from the left as Python does.\<close>

definition float_total_organic :: "waste_composition \<Rightarrow> real" where
  "float_total_organic wc =
     float_add (float_add (float_add (float_add (float_add (float_add
       (fraction wc ''general_waste'' ''non_hazardous'')
       (fraction wc ''infectious_waste'' ''body_fluids''))
       (fraction wc ''infectious_waste'' ''lab_cultures''))
       (fraction wc ''pharmaceutical_waste'' ''pharmaceuticals''))
       (fraction wc ''chemical_waste'' ''cytotoxic_organic''))
       (fraction wc ''radioactive_waste'' ''radioactive_organic''))
       (fraction wc ''sharps_waste'' ''needles_sharps_plastic'')"

definition float_biogenic_organic :: "waste_composition \<Rightarrow> real" where
  "float_biogenic_organic wc = float_sub (float_total_organic wc) (fossil_organic wc)"

definition float_apply_scenario :: "factor_set \<Rightarrow> scenario option \<Rightarrow> factor_set result" where
  "float_apply_scenario f scenario =
     (case flue_gas_efficiency scenario of
        None \<Rightarrow> Inr f
      | Some efficiency \<Rightarrow>
          bind_result (float_imul f ''pm10_per_organic'' (float_sub 1 efficiency)) (\<lambda>f.
          bind_result (float_imul f ''pm25_per_organic'' (float_sub 1 efficiency)) (\<lambda>f.
          float_imul f ''nox_per_waste'' (float_sub 1 efficiency))))"

definition float_combustion_penalty :: "factor_set \<Rightarrow> emissions \<Rightarrow> emissions result" where
  "float_combustion_penalty f emissions =
     (if dict_get f ''combustion_efficiency'' 1.0 < binary64 0.95 then
        bind_result (getitem f ''combustion_efficiency'') (\<lambda>combustion_efficiency.
        let penalty = float_mul (float_sub (binary64 0.95) combustion_efficiency) 2 in
        bind_result (float_imul emissions ''pm10'' (float_add 1 penalty)) (\<lambda>emissions.
        float_imul emissions ''pm25'' (float_add 1 penalty)))
      else Inr emissions)"

definition float_incineration_formulas :: "factor_set \<Rightarrow> waste_stream \<Rightarrow> emissions result" where
  "float_incineration_formulas f waste =
     (let wc = composition waste;
          mass_q = mass waste
      in
      bind_result (getitem f ''energy_content'') (\<lambda>energy_content.
      let energy = float_mul mass_q energy_content in
      bind_result (getitem f ''carbon_content_fossil'') (\<lambda>carbon_content_fossil.
      bind_result (getitem f ''carbon_content_biogenic'') (\<lambda>carbon_content_biogenic.
      bind_result (getitem f ''so2_conversion'') (\<lambda>so2_conversion.
      bind_result (getitem f ''nox_per_waste'') (\<lambda>nox_per_waste.
      bind_result (getitem f ''pm10_per_organic'') (\<lambda>pm10_per_organic.
      bind_result (getitem f ''pm25_per_organic'') (\<lambda>pm25_per_organic.
      bind_result (getitem f ''hg_volatilization'') (\<lambda>hg_volatilization.
      bind_result (getitem f ''pb_volatilization'') (\<lambda>pb_volatilization.
      float_combustion_penalty f
        [''co2_fossil'' \<mapsto>
            float_mul (float_mul (float_mul (fossil_organic wc) energy) carbon_content_fossil)
              (float_truediv 44 12),
         ''co2_biogenic'' \<mapsto>
            float_mul (float_mul (float_mul (float_biogenic_organic wc) energy)
              carbon_content_biogenic) (float_truediv 44 12),
         ''so2'' \<mapsto>
            float_mul (float_mul (float_mul (float_total_organic wc) mass_q) so2_conversion)
              (float_truediv 64 32),
         ''nox'' \<mapsto> float_mul mass_q nox_per_waste,
         ''pm10'' \<mapsto> float_mul (float_mul mass_q (float_total_organic wc)) pm10_per_organic,
         ''pm25'' \<mapsto> float_mul (float_mul mass_q (float_total_organic wc)) pm25_per_organic,
         ''hg'' \<mapsto>
            float_mul (float_mul mass_q (fraction wc ''heavy_metals_waste'' ''mercury_waste''))
              hg_volatilization,
         ''pb'' \<mapsto>
            float_mul
              (float_mul mass_q (fraction wc ''heavy_metals_waste'' ''other_heavy_metals''))
              pb_volatilization]))))))))))"

definition float_incineration_calculate_direct_emissions ::
  "factor_set \<Rightarrow> waste_stream \<Rightarrow> scenario option \<Rightarrow> emissions result" where
  "float_incineration_calculate_direct_emissions fs waste scenario =
     bind_result (float_apply_scenario fs scenario) (\<lambda>f.
       float_incineration_formulas f waste)"

section \<open>The Microwave variant\<close>




text \<open>
  Modelled from the spec: the method \<open>calculate_direct_emissions\<close> of the Microwave
  process, whose file is not among the sources. The spec says of it: "Microwave
  additionally defines per-pollutant emission limits and an \<open>enforce_emission_limits\<close>
  flag: when true, each computed pollutant quantity must be capped at its configured
  limit before being returned." The spec does not give the formulas that compute the
  quantities; they are the parameter \<open>computed\<close>.
\<close>

definition capped :: "(string \<rightharpoonup> real) \<Rightarrow> emissions \<Rightarrow> emissions" where
  "capped limits emissions =
     (\<lambda>k. case emissions k of
            None \<Rightarrow> None
          | Some q \<Rightarrow> Some (case limits k of None \<Rightarrow> q | Some l \<Rightarrow> min q l))"

definition microwave_calculate_direct_emissions ::
  "(waste_stream \<Rightarrow> scenario option \<Rightarrow> emissions) \<Rightarrow> (string \<rightharpoonup> real) \<Rightarrow> bool
     \<Rightarrow> waste_stream \<Rightarrow> scenario option \<Rightarrow> emissions" where
  "microwave_calculate_direct_emissions computed limits enforce waste scenario =
     (if enforce then capped limits (computed waste scenario)
      else computed waste scenario)"


section \<open>Dictionary and error lemmas\<close>

lemma bind_result_simps:
  "bind_result (Inl e) k = Inl e" "bind_result (Inr v) k = k v"
  by (simp_all add: bind_result_def)

lemma getitem_Some: "d k = Some v \<Longrightarrow> getitem d k = Inr v"
  by (simp add: getitem_def)

lemma getitem_None: "d k = None \<Longrightarrow> getitem d k = Inl (KeyError k)"
  by (simp add: getitem_def)

lemma imul_Some: "d k = Some v \<Longrightarrow> imul d k x = Inr (d(k \<mapsto> v * x))"
  by (simp add: imul_def getitem_Some bind_result_simps)

lemma imul_None: "d k = None \<Longrightarrow> imul d k x = Inl (KeyError k)"
  by (simp add: imul_def getitem_None bind_result_simps)

section \<open>The end-to-end case of the default stream\<close>

lemma total_organic_default: "total_organic DEFAULT_COMPOSITION = 0.907"
  by (simp add: total_organic_def fraction_def dict_get_def DEFAULT_COMPOSITION_def)

lemma fossil_organic_default: "fossil_organic DEFAULT_COMPOSITION = 0.02"
  by (simp add: fossil_organic_def fraction_def dict_get_def DEFAULT_COMPOSITION_def)

lemma biogenic_organic_default: "biogenic_organic DEFAULT_COMPOSITION = 0.887"
  by (simp add: biogenic_organic_def total_organic_default fossil_organic_default)

lemma energy_default:
  "incineration_energy EMISSION_FACTORS_INCINERATION
     \<lparr>mass = 100, composition = DEFAULT_COMPOSITION\<rparr> = Inr 530"
  by (simp add: incineration_energy_def EMISSION_FACTORS_INCINERATION_def getitem_def
      bind_result_def)

lemma emissions_default:
  "\<exists>em. incineration_calculate_direct_emissions EMISSION_FACTORS_INCINERATION
          \<lparr>mass = 100, composition = DEFAULT_COMPOSITION\<rparr> None = Inr em
      \<and> em ''co2_fossil'' = Some (0.02 * 530 * 0.097 * (44 / 12))
      \<and> em ''co2_biogenic'' = Some (0.887 * 530 * 0.054 * (44 / 12))
      \<and> em ''nox'' = Some (100 * (4.3 / 10 ^ 6))"
  by (simp add: incineration_calculate_direct_emissions_def apply_scenario_def
      flue_gas_efficiency_def incineration_formulas_def incineration_energy_def
      combustion_penalty_def getitem_def imul_def dict_get_def bind_result_def Let_def
      EMISSION_FACTORS_INCINERATION_def total_organic_default fossil_organic_default
      biogenic_organic_default)

text \<open>
  C1. A stream of 100 kg with the default composition, incinerated with the default
  factor table and no scenario: the organic fraction is 0.907, of which 0.02 fossil and
  0.887 biogenic; the energy is 530 kWh; the call returns
  \<open>co2_fossil = 0.02 * 530 * 0.097 * 44/12\<close>, which is 3.77 kg to two decimals,
  \<open>co2_biogenic = 0.887 * 530 * 0.054 * 44/12\<close>, which is 93.1 kg to one decimal, and
  \<open>nox = 100 * 4.3e-6 = 4.3e-4\<close> kg.
\<close>

theorem C1_default_stream_incineration:
  "total_organic DEFAULT_COMPOSITION = 0.907
   \<and> fossil_organic DEFAULT_COMPOSITION = 0.02
   \<and> biogenic_organic DEFAULT_COMPOSITION = 0.887
   \<and> incineration_energy EMISSION_FACTORS_INCINERATION
         \<lparr>mass = 100, composition = DEFAULT_COMPOSITION\<rparr> = Inr 530
   \<and> (\<exists>em. incineration_calculate_direct_emissions EMISSION_FACTORS_INCINERATION
            \<lparr>mass = 100, composition = DEFAULT_COMPOSITION\<rparr> None = Inr em
        \<and> em ''co2_fossil'' = Some (0.02 * 530 * 0.097 * (44 / 12))
        \<and> em ''co2_biogenic'' = Some (0.887 * 530 * 0.054 * (44 / 12))
        \<and> em ''nox'' = Some (100 * (4.3 / 10 ^ 6)))
   \<and> \<bar>0.02 * 530 * 0.097 * (44 / 12) - 3.77\<bar> < (0.005 :: real)
   \<and> \<bar>0.887 * 530 * 0.054 * (44 / 12) - 93.1\<bar> < (0.05 :: real)
   \<and> 100 * (4.3 / 10 ^ 6) = (4.3 / 10 ^ 4 :: real)"
proof -
  have "\<bar>0.02 * 530 * 0.097 * (44 / 12) - 3.77\<bar> < (0.005 :: real)"
    by simp
  moreover have "\<bar>0.887 * 530 * 0.054 * (44 / 12) - 93.1\<bar> < (0.05 :: real)"
    by simp
  moreover have "100 * (4.3 / 10 ^ 6) = (4.3 / 10 ^ 4 :: real)"
    by simp
  ultimately show ?thesis
    using total_organic_default fossil_organic_default biogenic_organic_default
      energy_default emissions_default
    by blast
qed

section \<open>Segregation\<close>

lemma entry_scale_if_present:
  "entry (scale_if_present c cat sub x) cat' sub' =
     (if cat' = cat \<and> sub' = sub then map_option (\<lambda>v. v * x) (entry c cat sub)
      else entry c cat' sub')"
  by (auto simp add: scale_if_present_def entry_def dict_get_def split: option.splits)

lemma mass_adjust_for_segregation: "mass (adjust_for_segregation w e) = mass w"
  by (simp add: adjust_for_segregation_def Let_def)

lemma entry_adjust_for_segregation:
  "entry (composition (adjust_for_segregation w e)) cat sub =
     (if (cat, sub) \<in> {(''sharps_waste'', ''needles_sharps_plastic''),
                         (''chemical_waste'', ''cytotoxic_organic''),
                         (''chemical_waste'', ''lab_reagents'')}
      then map_option (\<lambda>v. v * (1 - e)) (entry (composition w) cat sub)
      else entry (composition w) cat sub)"
  by (simp add: adjust_for_segregation_def Let_def entry_scale_if_present)

lemma scale_twice: "(v * (1 - e1)) * (1 - e2) = v * (1 - (1 - (1 - e1) * (1 - e2)))" for v :: real
  by (simp add: algebra_simps)

lemma fraction_entry: "fraction c cat sub = (case entry c cat sub of None \<Rightarrow> 0 | Some v \<Rightarrow> v)"
  by (simp add: fraction_def entry_def dict_get_def split: option.splits)

text \<open>
  C2. Segregating with efficiency \<open>e1\<close> and then with \<open>e2\<close> leaves, in each of the
  three hazardous entries (plastic sharps, cytotoxic organics, lab reagents), the same
  fraction as segregating the original stream once with efficiency
  \<open>1 - (1 - e1) * (1 - e2)\<close>; an entry the stream lacks is lacking on both sides.
\<close>

theorem C2_segregation_composes:
  "entry (composition (adjust_for_segregation (adjust_for_segregation w e1) e2))
      ''sharps_waste'' ''needles_sharps_plastic''
   = entry (composition (adjust_for_segregation w (1 - (1 - e1) * (1 - e2))))
      ''sharps_waste'' ''needles_sharps_plastic''
   \<and> entry (composition (adjust_for_segregation (adjust_for_segregation w e1) e2))
      ''chemical_waste'' ''cytotoxic_organic''
   = entry (composition (adjust_for_segregation w (1 - (1 - e1) * (1 - e2))))
      ''chemical_waste'' ''cytotoxic_organic''
   \<and> entry (composition (adjust_for_segregation (adjust_for_segregation w e1) e2))
      ''chemical_waste'' ''lab_reagents''
   = entry (composition (adjust_for_segregation w (1 - (1 - e1) * (1 - e2))))
      ''chemical_waste'' ''lab_reagents''"
  by (simp add: entry_adjust_for_segregation option.map_comp comp_def scale_twice)

subsection \<open>Segregation as the code computes it\<close>

lemma entry_float_scale_if_present:
  "entry (float_scale_if_present c cat sub x) cat' sub' =
     (if cat' = cat \<and> sub' = sub then map_option (\<lambda>v. float_mul v x) (entry c cat sub)
      else entry c cat' sub')"
  by (auto simp add: float_scale_if_present_def entry_def dict_get_def split: option.splits)

lemma entry_float_adjust_for_segregation:
  "entry (composition (float_adjust_for_segregation w e)) cat sub =
     (if (cat, sub) \<in> {(''sharps_waste'', ''needles_sharps_plastic''),
                         (''chemical_waste'', ''cytotoxic_organic''),
                         (''chemical_waste'', ''lab_reagents'')}
      then map_option (\<lambda>v. float_mul v (float_sub 1 e)) (entry (composition w) cat sub)
      else entry (composition w) cat sub)"
  by (simp add: float_adjust_for_segregation_def Let_def entry_float_scale_if_present)

lemma entry_float_composition:
  "entry (float_composition wc) cat sub = map_option binary64 (entry wc cat sub)"
  by (simp add: entry_def dict_get_def float_composition_def floats_def split: option.splits)

lemma entries_default:
  "entry DEFAULT_COMPOSITION ''sharps_waste'' ''needles_sharps_plastic'' = Some 0.02"
  "entry DEFAULT_COMPOSITION ''chemical_waste'' ''cytotoxic_organic'' = Some 0.015"
  "entry DEFAULT_COMPOSITION ''chemical_waste'' ''lab_reagents'' = Some 0.03"
  by (simp_all add: entry_def dict_get_def DEFAULT_COMPOSITION_def)

lemma float_twice_sharps:
  "float_mul (float_mul (binary64 0.02) (float_sub 1 (binary64 0.1))) (float_sub 1 (binary64 0.7))
     = 6225776124876975 / 2 ^ 60"
  unfolding float_mul_def float_sub_def by code_simp

lemma float_once_sharps:
  "float_mul (binary64 0.02)
     (float_sub 1 (float_sub 1 (float_mul (float_sub 1 (binary64 0.1)) (float_sub 1 (binary64 0.7)))))
     = 6225776124876974 / 2 ^ 60"
  unfolding float_mul_def float_sub_def by code_simp

lemma float_twice_cytotoxic:
  "float_mul (float_mul (binary64 0.015) (float_sub 1 (binary64 0.1))) (float_sub 1 (binary64 0.7))
     = 4669332093657731 / 2 ^ 60"
  unfolding float_mul_def float_sub_def by code_simp

lemma float_once_cytotoxic:
  "float_mul (binary64 0.015)
     (float_sub 1 (float_sub 1 (float_mul (float_sub 1 (binary64 0.1)) (float_sub 1 (binary64 0.7)))))
     = 4669332093657730 / 2 ^ 60"
  unfolding float_mul_def float_sub_def by code_simp

lemma float_twice_reagents:
  "float_mul (float_mul (binary64 0.03) (float_sub 1 (binary64 0.1))) (float_sub 1 (binary64 0.7))
     = 4669332093657731 / 2 ^ 59"
  unfolding float_mul_def float_sub_def by code_simp

lemma float_once_reagents:
  "float_mul (binary64 0.03)
     (float_sub 1 (float_sub 1 (float_mul (float_sub 1 (binary64 0.1)) (float_sub 1 (binary64 0.7)))))
     = 4669332093657730 / 2 ^ 59"
  unfolding float_mul_def float_sub_def by code_simp

text \<open>
  The default stream, segregated with 0.1 and then with 0.7, against the same stream
  segregated once with \<open>1 - (1 - 0.1) * (1 - 0.7)\<close>, every operation in binary64: the
  plastic sharps are left at 0.005400000000000001 and at 0.0054, the cytotoxic organics
  at 0.004050000000000001 and at 0.00405, the lab reagents at 0.008100000000000001 and
  at 0.0081.
\<close>

theorem C2_counterexample:
  "entry (composition (float_adjust_for_segregation (float_adjust_for_segregation
        \<lparr>mass = 100, composition = float_composition DEFAULT_COMPOSITION\<rparr>
        (binary64 0.1)) (binary64 0.7))) ''sharps_waste'' ''needles_sharps_plastic''
     = Some (6225776124876975 / 2 ^ 60)
   \<and> entry (composition (float_adjust_for_segregation
        \<lparr>mass = 100, composition = float_composition DEFAULT_COMPOSITION\<rparr>
        (float_sub 1 (float_mul (float_sub 1 (binary64 0.1)) (float_sub 1 (binary64 0.7))))))
        ''sharps_waste'' ''needles_sharps_plastic''
     = Some (6225776124876974 / 2 ^ 60)
   \<and> (6225776124876975 / 2 ^ 60 :: real) \<noteq> 6225776124876974 / 2 ^ 60
   \<and> entry (composition (float_adjust_for_segregation (float_adjust_for_segregation
        \<lparr>mass = 100, composition = float_composition DEFAULT_COMPOSITION\<rparr>
        (binary64 0.1)) (binary64 0.7))) ''chemical_waste'' ''cytotoxic_organic''
     = Some (4669332093657731 / 2 ^ 60)
   \<and> entry (composition (float_adjust_for_segregation
        \<lparr>mass = 100, composition = float_composition DEFAULT_COMPOSITION\<rparr>
        (float_sub 1 (float_mul (float_sub 1 (binary64 0.1)) (float_sub 1 (binary64 0.7))))))
        ''chemical_waste'' ''cytotoxic_organic''
     = Some (4669332093657730 / 2 ^ 60)
   \<and> (4669332093657731 / 2 ^ 60 :: real) \<noteq> 4669332093657730 / 2 ^ 60
   \<and> entry (composition (float_adjust_for_segregation (float_adjust_for_segregation
        \<lparr>mass = 100, composition = float_composition DEFAULT_COMPOSITION\<rparr>
        (binary64 0.1)) (binary64 0.7))) ''chemical_waste'' ''lab_reagents''
     = Some (4669332093657731 / 2 ^ 59)
   \<and> entry (composition (float_adjust_for_segregation
        \<lparr>mass = 100, composition = float_composition DEFAULT_COMPOSITION\<rparr>
        (float_sub 1 (float_mul (float_sub 1 (binary64 0.1)) (float_sub 1 (binary64 0.7))))))
        ''chemical_waste'' ''lab_reagents''
     = Some (4669332093657730 / 2 ^ 59)
   \<and> (4669332093657731 / 2 ^ 59 :: real) \<noteq> 4669332093657730 / 2 ^ 59"
proof -
  have n: "(6225776124876975 / 2 ^ 60 :: real) \<noteq> 6225776124876974 / 2 ^ 60"
    "(4669332093657731 / 2 ^ 60 :: real) \<noteq> 4669332093657730 / 2 ^ 60"
    "(4669332093657731 / 2 ^ 59 :: real) \<noteq> 4669332093657730 / 2 ^ 59"
    by simp_all
  have m: "(a, b) \<in> {(''sharps_waste'', ''needles_sharps_plastic''),
                         (''chemical_waste'', ''cytotoxic_organic''),
                         (''chemical_waste'', ''lab_reagents'')}"
    if "(a, b) = (''sharps_waste'', ''needles_sharps_plastic'')
      \<or> (a, b) = (''chemical_waste'', ''cytotoxic_organic'')
      \<or> (a, b) = (''chemical_waste'', ''lab_reagents'')" for a b :: string
    using that by auto
  show ?thesis
    unfolding entry_float_adjust_for_segregation waste_stream.simps entry_float_composition
      entries_default
    apply (simp only: m if_True simp_thms option.map float_twice_sharps float_once_sharps
        float_twice_cytotoxic float_once_cytotoxic float_twice_reagents float_once_reagents)
    apply (simp only: n simp_thms not_False_eq_True)
    done
qed

section \<open>What the two calls return on a complete factor set\<close>

lemma apply_scenario_skip:
  "flue_gas_efficiency scenario = None \<Longrightarrow> apply_scenario f scenario = Inr f"
  by (simp add: apply_scenario_def)

lemma apply_scenario_rescale:
  assumes "flue_gas_efficiency scenario = Some e"
    and "f ''pm10_per_organic'' = Some a" and "f ''pm25_per_organic'' = Some b"
    and "f ''nox_per_waste'' = Some c"
  shows "apply_scenario f scenario =
    Inr (f(''pm10_per_organic'' \<mapsto> a * (1 - e), ''pm25_per_organic'' \<mapsto> b * (1 - e),
           ''nox_per_waste'' \<mapsto> c * (1 - e)))"
  using assms by (simp add: apply_scenario_def imul_Some bind_result_simps)

lemma combustion_penalty_eq:
  assumes "em ''pm10'' = Some a" and "em ''pm25'' = Some b"
  shows "combustion_penalty f em =
    Inr (if dict_get f ''combustion_efficiency'' 1 < 0.95
         then em(''pm10'' \<mapsto> a * (1 + (0.95 - dict_get f ''combustion_efficiency'' 1) * 2),
                 ''pm25'' \<mapsto> b * (1 + (0.95 - dict_get f ''combustion_efficiency'' 1) * 2))
         else em)"
  using assms
  by (auto simp add: combustion_penalty_def dict_get_def getitem_def imul_def
      bind_result_simps Let_def split: option.splits)

lemma incineration_formulas_eq:
  assumes "f ''energy_content'' = Some ec"
    and "f ''carbon_content_fossil'' = Some ccf"
    and "f ''carbon_content_biogenic'' = Some ccb"
    and "f ''so2_conversion'' = Some so2c"
    and "f ''nox_per_waste'' = Some nox"
    and "f ''pm10_per_organic'' = Some pmten"
    and "f ''pm25_per_organic'' = Some pmfine"
    and "f ''hg_volatilization'' = Some hg"
    and "f ''pb_volatilization'' = Some pb"
  shows "incineration_formulas f w = combustion_penalty f
        [''co2_fossil'' \<mapsto> fossil_organic (composition w) * (mass w * ec) * ccf * (44 / 12),
         ''co2_biogenic'' \<mapsto> biogenic_organic (composition w) * (mass w * ec) * ccb * (44 / 12),
         ''so2'' \<mapsto> total_organic (composition w) * mass w * so2c * (64 / 32),
         ''nox'' \<mapsto> mass w * nox,
         ''pm10'' \<mapsto> mass w * total_organic (composition w) * pmten,
         ''pm25'' \<mapsto> mass w * total_organic (composition w) * pmfine,
         ''hg'' \<mapsto> mass w * fraction (composition w) ''heavy_metals_waste'' ''mercury_waste'' * hg,
         ''pb'' \<mapsto> mass w * fraction (composition w) ''heavy_metals_waste'' ''other_heavy_metals'' * pb]"
  using assms
  by (simp add: incineration_formulas_def incineration_energy_def getitem_Some
      bind_result_simps Let_def)

lemma incineration_keys_the:
  assumes "incineration_keys \<subseteq> dom f"
  shows "f ''energy_content'' = Some (the (f ''energy_content''))"
    and "f ''carbon_content_fossil'' = Some (the (f ''carbon_content_fossil''))"
    and "f ''carbon_content_biogenic'' = Some (the (f ''carbon_content_biogenic''))"
    and "f ''so2_conversion'' = Some (the (f ''so2_conversion''))"
    and "f ''nox_per_waste'' = Some (the (f ''nox_per_waste''))"
    and "f ''pm10_per_organic'' = Some (the (f ''pm10_per_organic''))"
    and "f ''pm25_per_organic'' = Some (the (f ''pm25_per_organic''))"
    and "f ''hg_volatilization'' = Some (the (f ''hg_volatilization''))"
    and "f ''pb_volatilization'' = Some (the (f ''pb_volatilization''))"
  using assms by (auto simp add: incineration_keys_def)

text \<open>
  The result of the incineration call on a factor set that has the nine factors: \<open>r\<close> is
  what the scenario leaves of the three rescaled factors, \<open>p\<close> the penalty multiplier.
\<close>

lemma incineration_result:
  assumes "fs ''energy_content'' = Some ec"
    and "fs ''carbon_content_fossil'' = Some ccf"
    and "fs ''carbon_content_biogenic'' = Some ccb"
    and "fs ''so2_conversion'' = Some so2c"
    and "fs ''nox_per_waste'' = Some nox"
    and "fs ''pm10_per_organic'' = Some pmten"
    and "fs ''pm25_per_organic'' = Some pmfine"
    and "fs ''hg_volatilization'' = Some hg"
    and "fs ''pb_volatilization'' = Some pb"
    and r: "r = (case flue_gas_efficiency scenario of None \<Rightarrow> 1 | Some e \<Rightarrow> 1 - e)"
    and p: "p = (if dict_get fs ''combustion_efficiency'' 1 < 0.95
              then 1 + (0.95 - dict_get fs ''combustion_efficiency'' 1) * 2 else 1)"
  shows "incineration_calculate_direct_emissions fs w scenario = Inr
        [''co2_fossil'' \<mapsto> fossil_organic (composition w) * (mass w * ec) * ccf * (44 / 12),
         ''co2_biogenic'' \<mapsto> biogenic_organic (composition w) * (mass w * ec) * ccb * (44 / 12),
         ''so2'' \<mapsto> total_organic (composition w) * mass w * so2c * (64 / 32),
         ''nox'' \<mapsto> mass w * (nox * r),
         ''pm10'' \<mapsto> mass w * total_organic (composition w) * (pmten * r) * p,
         ''pm25'' \<mapsto> mass w * total_organic (composition w) * (pmfine * r) * p,
         ''hg'' \<mapsto> mass w * fraction (composition w) ''heavy_metals_waste'' ''mercury_waste'' * hg,
         ''pb'' \<mapsto> mass w * fraction (composition w) ''heavy_metals_waste'' ''other_heavy_metals'' * pb]"
proof (cases "flue_gas_efficiency scenario")
  case None
  then have r1: "r = 1" using r by simp
  show ?thesis
    unfolding incineration_calculate_direct_emissions_def apply_scenario_skip[OF None]
      bind_result_simps
    apply (subst incineration_formulas_eq[OF assms(1-9)])
    apply (subst combustion_penalty_eq)
      apply simp
     apply simp
    apply (rule arg_cong[where f = Inr])
    apply (rule ext)
    apply (simp add: r1 p)
    done
next
  case (Some e)
  then have r1: "r = 1 - e" using r by simp
  let ?f = "fs(''pm10_per_organic'' \<mapsto> pmten * (1 - e),
      ''pm25_per_organic'' \<mapsto> pmfine * (1 - e), ''nox_per_waste'' \<mapsto> nox * (1 - e))"
  have ce: "dict_get ?f ''combustion_efficiency'' 1 = dict_get fs ''combustion_efficiency'' 1"
    by (simp add: dict_get_def)
  show ?thesis
    unfolding incineration_calculate_direct_emissions_def
      apply_scenario_rescale[OF Some assms(6,7,5)] bind_result_simps
    apply (subst incineration_formulas_eq[where f = ?f and ec = ec and ccf = ccf and ccb = ccb
          and so2c = so2c and nox = "nox * (1 - e)" and pmten = "pmten * (1 - e)"
          and pmfine = "pmfine * (1 - e)" and hg = hg and pb = pb])
             apply (simp_all add: assms(1-9))[9]
    apply (subst combustion_penalty_eq)
      apply simp
     apply simp
    apply (rule arg_cong[where f = Inr])
    apply (rule ext)
    apply (simp add: r1 p ce)
    done
qed

lemma pyrolysis_keys_the:
  assumes "pyrolysis_keys \<subseteq> dom f"
  shows "f ''co2_fossil_per_organic'' = Some (the (f ''co2_fossil_per_organic''))"
    and "f ''ch4_fossil_per_organic'' = Some (the (f ''ch4_fossil_per_organic''))"
    and "f ''nmvoc_per_organic'' = Some (the (f ''nmvoc_per_organic''))"
    and "f ''pahs_per_organic'' = Some (the (f ''pahs_per_organic''))"
    and "f ''dioxin_per_chlorinated'' = Some (the (f ''dioxin_per_chlorinated''))"
    and "f ''hg_per_mercury'' = Some (the (f ''hg_per_mercury''))"
    and "f ''pb_per_heavy_metal'' = Some (the (f ''pb_per_heavy_metal''))"
  using assms by (auto simp add: pyrolysis_keys_def)

lemma pyrolysis_result:
  assumes "f ''co2_fossil_per_organic'' = Some co2"
    and "f ''ch4_fossil_per_organic'' = Some ch4"
    and "f ''nmvoc_per_organic'' = Some nmvoc"
    and "f ''pahs_per_organic'' = Some pahs"
    and "f ''dioxin_per_chlorinated'' = Some dioxin"
    and "f ''hg_per_mercury'' = Some hg"
    and "f ''pb_per_heavy_metal'' = Some pb"
  shows "pyrolysis_calculate_direct_emissions f w scenario = Inr
        [''co2_fossil'' \<mapsto> mass w * total_organic (composition w) * co2,
         ''ch4_fossil'' \<mapsto> mass w * total_organic (composition w) * ch4,
         ''nmvoc'' \<mapsto> mass w * total_organic (composition w) * nmvoc,
         ''pahs'' \<mapsto> mass w * total_organic (composition w) * pahs,
         ''dioxin'' \<mapsto> mass w * total_chlor (composition w) * dioxin,
         ''hg'' \<mapsto> mass w * fraction (composition w) ''heavy_metals_waste'' ''mercury_waste''
                    * hg,
         ''pb'' \<mapsto> mass w * fraction (composition w) ''heavy_metals_waste''
                      ''other_heavy_metals'' * pb]"
  using assms
  by (simp add: pyrolysis_calculate_direct_emissions_def getitem_Some bind_result_simps Let_def)

text \<open>A factor set that lacks a factor the process subscripts makes the call raise.\<close>

lemma incineration_missing_factor:
  assumes "flue_gas_efficiency scenario = None" and "f ''energy_content'' = None"
  shows "incineration_calculate_direct_emissions f w scenario = Inl (KeyError ''energy_content'')"
  using assms
  by (simp add: incineration_calculate_direct_emissions_def apply_scenario_skip
      bind_result_simps incineration_formulas_def incineration_energy_def getitem_None Let_def)

lemma pyrolysis_missing_factor:
  assumes "f ''co2_fossil_per_organic'' = None"
  shows "pyrolysis_calculate_direct_emissions f w scenario
    = Inl (KeyError ''co2_fossil_per_organic'')"
  using assms
  by (simp add: pyrolysis_calculate_direct_emissions_def getitem_None bind_result_simps Let_def)

lemma incineration_keys_default: "incineration_keys \<subseteq> dom EMISSION_FACTORS_INCINERATION"
  by (simp add: incineration_keys_def EMISSION_FACTORS_INCINERATION_def)

lemma pyrolysis_keys_default: "pyrolysis_keys \<subseteq> dom EMISSION_FACTORS_PYROLYSIS"
  by (simp add: pyrolysis_keys_def EMISSION_FACTORS_PYROLYSIS_def)

section \<open>Streams without organic matter\<close>

lemma fossil_zero_of_nonneg:
  assumes "total_organic c = 0"
    and "0 \<le> fraction c ''general_waste'' ''non_hazardous''"
    and "0 \<le> fraction c ''infectious_waste'' ''body_fluids''"
    and "0 \<le> fraction c ''infectious_waste'' ''lab_cultures''"
    and "0 \<le> fraction c ''pharmaceutical_waste'' ''pharmaceuticals''"
    and "0 \<le> fraction c ''chemical_waste'' ''cytotoxic_organic''"
    and "0 \<le> fraction c ''radioactive_waste'' ''radioactive_organic''"
    and "0 \<le> fraction c ''sharps_waste'' ''needles_sharps_plastic''"
  shows "fossil_organic c = 0"
  using assms unfolding total_organic_def fossil_organic_def by linarith

text \<open>
  C3, as the code has it. When the seven-term organic fraction of a stream is 0 then,
  whatever the mass, incineration returns exactly 0 for \<open>pm10\<close> and \<open>pm25\<close> and pyrolysis
  returns exactly 0 for \<open>co2_fossil\<close>, \<open>ch4_fossil\<close>, \<open>nmvoc\<close> and \<open>pahs\<close>.
  Incineration's \<open>co2_fossil\<close> and \<open>co2_biogenic\<close> are computed from the plastic-sharps
  fraction and from the rest, not from the sum: they are exactly 0 when the
  plastic-sharps fraction is 0 as well, which is the case whenever none of the seven
  fractions is negative.
\<close>

theorem C3_zero_organic:
  assumes "total_organic (composition w) = 0"
    and "incineration_keys \<subseteq> dom fi"
    and "pyrolysis_keys \<subseteq> dom fp"
  shows "(\<exists>em. incineration_calculate_direct_emissions fi w si = Inr em
            \<and> em ''pm10'' = Some 0 \<and> em ''pm25'' = Some 0
            \<and> (fossil_organic (composition w) = 0 \<longrightarrow>
                 em ''co2_fossil'' = Some 0 \<and> em ''co2_biogenic'' = Some 0))
       \<and> (\<exists>em. pyrolysis_calculate_direct_emissions fp w sp = Inr em
            \<and> em ''co2_fossil'' = Some 0 \<and> em ''ch4_fossil'' = Some 0
            \<and> em ''nmvoc'' = Some 0 \<and> em ''pahs'' = Some 0)
       \<and> (0 \<le> fraction (composition w) ''general_waste'' ''non_hazardous''
            \<and> 0 \<le> fraction (composition w) ''infectious_waste'' ''body_fluids''
            \<and> 0 \<le> fraction (composition w) ''infectious_waste'' ''lab_cultures''
            \<and> 0 \<le> fraction (composition w) ''pharmaceutical_waste'' ''pharmaceuticals''
            \<and> 0 \<le> fraction (composition w) ''chemical_waste'' ''cytotoxic_organic''
            \<and> 0 \<le> fraction (composition w) ''radioactive_waste'' ''radioactive_organic''
            \<and> 0 \<le> fraction (composition w) ''sharps_waste'' ''needles_sharps_plastic''
            \<longrightarrow> fossil_organic (composition w) = 0)"
proof (intro conjI)
  note k = incineration_keys_the[OF assms(2)]
  show "\<exists>em. incineration_calculate_direct_emissions fi w si = Inr em
            \<and> em ''pm10'' = Some 0 \<and> em ''pm25'' = Some 0
            \<and> (fossil_organic (composition w) = 0 \<longrightarrow>
                 em ''co2_fossil'' = Some 0 \<and> em ''co2_biogenic'' = Some 0)"
    by (simp add: incineration_result[OF k refl refl] assms(1) biogenic_organic_def)
next
  note k = pyrolysis_keys_the[OF assms(3)]
  show "\<exists>em. pyrolysis_calculate_direct_emissions fp w sp = Inr em
            \<and> em ''co2_fossil'' = Some 0 \<and> em ''ch4_fossil'' = Some 0
            \<and> em ''nmvoc'' = Some 0 \<and> em ''pahs'' = Some 0"
    by (simp add: pyrolysis_result[OF k] assms(1))
next
  show "0 \<le> fraction (composition w) ''general_waste'' ''non_hazardous''
            \<and> 0 \<le> fraction (composition w) ''infectious_waste'' ''body_fluids''
            \<and> 0 \<le> fraction (composition w) ''infectious_waste'' ''lab_cultures''
            \<and> 0 \<le> fraction (composition w) ''pharmaceutical_waste'' ''pharmaceuticals''
            \<and> 0 \<le> fraction (composition w) ''chemical_waste'' ''cytotoxic_organic''
            \<and> 0 \<le> fraction (composition w) ''radioactive_waste'' ''radioactive_organic''
            \<and> 0 \<le> fraction (composition w) ''sharps_waste'' ''needles_sharps_plastic''
            \<longrightarrow> fossil_organic (composition w) = 0"
    using fossil_zero_of_nonneg[OF assms(1)] by blast
qed

theorem C3_zero_organic_witness:
  "total_organic (composition \<lparr>mass = 100, composition =
        [''heavy_metals_waste'' \<mapsto> [''mercury_waste'' \<mapsto> 0.5, ''other_heavy_metals'' \<mapsto> 0.5]]\<rparr>) = 0
   \<and> incineration_keys \<subseteq> dom EMISSION_FACTORS_INCINERATION
   \<and> pyrolysis_keys \<subseteq> dom EMISSION_FACTORS_PYROLYSIS
   \<and> (\<exists>em. incineration_calculate_direct_emissions EMISSION_FACTORS_INCINERATION
          \<lparr>mass = 100, composition =
            [''heavy_metals_waste'' \<mapsto> [''mercury_waste'' \<mapsto> 0.5, ''other_heavy_metals'' \<mapsto> 0.5]]\<rparr>
          None = Inr em
        \<and> em ''pm10'' = Some 0 \<and> em ''pm25'' = Some 0
        \<and> em ''co2_fossil'' = Some 0 \<and> em ''co2_biogenic'' = Some 0)
   \<and> (\<exists>em. pyrolysis_calculate_direct_emissions EMISSION_FACTORS_PYROLYSIS
          \<lparr>mass = 100, composition =
            [''heavy_metals_waste'' \<mapsto> [''mercury_waste'' \<mapsto> 0.5, ''other_heavy_metals'' \<mapsto> 0.5]]\<rparr>
          None = Inr em
        \<and> em ''co2_fossil'' = Some 0 \<and> em ''ch4_fossil'' = Some 0
        \<and> em ''nmvoc'' = Some 0 \<and> em ''pahs'' = Some 0)"
proof -
  let ?w = "\<lparr>mass = 100, composition =
        [''heavy_metals_waste'' \<mapsto> [''mercury_waste'' \<mapsto> 0.5 :: real, ''other_heavy_metals'' \<mapsto> 0.5]]\<rparr>"
  have t: "total_organic (composition ?w) = 0"
    by (simp add: total_organic_def fraction_def dict_get_def)
  have f: "fossil_organic (composition ?w) = 0"
    by (simp add: fossil_organic_def fraction_def dict_get_def)
  show ?thesis
    using C3_zero_organic[OF t incineration_keys_default pyrolysis_keys_default, of None None]
      t f incineration_keys_default pyrolysis_keys_default
    by blast
qed

text \<open>
  The fractions of a composition are not range-checked, and segregation with an
  efficiency above 1 leaves negative ones. Segregating a stream of 0.02 general waste and
  0.02 plastic sharps with efficiency 2 gives an organic fraction of 0 with a fossil
  share of -0.02 and a biogenic share of 0.02, and incineration then returns non-zero
  \<open>co2_fossil\<close> and \<open>co2_biogenic\<close>.
\<close>

theorem C3_counterexample:
  "adjust_for_segregation
      \<lparr>mass = 100, composition =
         [''general_waste'' \<mapsto> [''non_hazardous'' \<mapsto> 0.02],
          ''sharps_waste'' \<mapsto> [''needles_sharps_plastic'' \<mapsto> 0.02]]\<rparr> 2
    = \<lparr>mass = 100, composition =
         [''general_waste'' \<mapsto> [''non_hazardous'' \<mapsto> 0.02],
          ''sharps_waste'' \<mapsto> [''needles_sharps_plastic'' \<mapsto> - 0.02]]\<rparr>
   \<and> total_organic
         [''general_waste'' \<mapsto> [''non_hazardous'' \<mapsto> 0.02],
          ''sharps_waste'' \<mapsto> [''needles_sharps_plastic'' \<mapsto> - 0.02]] = 0
   \<and> \<not> isl (incineration_calculate_direct_emissions EMISSION_FACTORS_INCINERATION
        \<lparr>mass = 100, composition =
         [''general_waste'' \<mapsto> [''non_hazardous'' \<mapsto> 0.02],
          ''sharps_waste'' \<mapsto> [''needles_sharps_plastic'' \<mapsto> - 0.02]]\<rparr> None)
   \<and> projr (incineration_calculate_direct_emissions EMISSION_FACTORS_INCINERATION
        \<lparr>mass = 100, composition =
         [''general_waste'' \<mapsto> [''non_hazardous'' \<mapsto> 0.02],
          ''sharps_waste'' \<mapsto> [''needles_sharps_plastic'' \<mapsto> - 0.02]]\<rparr> None) ''co2_fossil''
       = Some (- 0.02 * 530 * 0.097 * (44 / 12))
   \<and> projr (incineration_calculate_direct_emissions EMISSION_FACTORS_INCINERATION
        \<lparr>mass = 100, composition =
         [''general_waste'' \<mapsto> [''non_hazardous'' \<mapsto> 0.02],
          ''sharps_waste'' \<mapsto> [''needles_sharps_plastic'' \<mapsto> - 0.02]]\<rparr> None) ''co2_biogenic''
       = Some (0.02 * 530 * 0.054 * (44 / 12))
   \<and> - 0.02 * 530 * 0.097 * (44 / 12) \<noteq> (0 :: real)
   \<and> 0.02 * 530 * 0.054 * (44 / 12) \<noteq> (0 :: real)"
proof -
  let ?c = "[''general_waste'' \<mapsto> [''non_hazardous'' \<mapsto> 0.02],
          ''sharps_waste'' \<mapsto> [''needles_sharps_plastic'' \<mapsto> - 0.02 :: real]]"
  have t: "total_organic ?c = 0"
    by (simp add: total_organic_def fraction_def dict_get_def)
  have f: "fossil_organic ?c = - 0.02"
    by (simp add: fossil_organic_def fraction_def dict_get_def)
  have b: "biogenic_organic ?c = 0.02"
    unfolding biogenic_organic_def t f by simp
  have a: "adjust_for_segregation
      \<lparr>mass = 100, composition =
         [''general_waste'' \<mapsto> [''non_hazardous'' \<mapsto> 0.02],
          ''sharps_waste'' \<mapsto> [''needles_sharps_plastic'' \<mapsto> 0.02]]\<rparr> 2
    = \<lparr>mass = 100, composition = ?c\<rparr>"
    by (simp add: adjust_for_segregation_def scale_if_present_def entry_def dict_get_def Let_def)
  have r: "incineration_calculate_direct_emissions EMISSION_FACTORS_INCINERATION
        \<lparr>mass = 100, composition = ?c\<rparr> None = Inr
        [''co2_fossil'' \<mapsto> - 0.02 * 530 * 0.097 * (44 / 12),
         ''co2_biogenic'' \<mapsto> 0.02 * 530 * 0.054 * (44 / 12),
         ''so2'' \<mapsto> 0, ''nox'' \<mapsto> 100 * (4.3 / 10 ^ 6), ''pm10'' \<mapsto> 0, ''pm25'' \<mapsto> 0,
         ''hg'' \<mapsto> 0, ''pb'' \<mapsto> 0]"
    apply (subst incineration_result[where ec = "5.3" and ccf = "0.097" and ccb = "0.054"
          and so2c = "0.85" and nox = "4.3 / 10 ^ 6" and pmten = "0.000031"
          and pmfine = "0.0000217" and hg = "4.65 / 10 ^ 5" and pb = "6.218 / 10 ^ 4",
          OF _ _ _ _ _ _ _ _ _ refl refl])
             apply (simp_all add: EMISSION_FACTORS_INCINERATION_def)[9]
    unfolding waste_stream.simps t f b
    apply (simp add: flue_gas_efficiency_def fraction_def dict_get_def
        EMISSION_FACTORS_INCINERATION_def)
    done
  show ?thesis
    unfolding a t r by simp
qed

section \<open>Scaling with the mass\<close>



text \<open>
  The scaling does not reach every variant. Microwave, as the spec describes it, caps
  each computed quantity at its configured limit, and config.py sets the limits and turns
  the flag on: a quantity that has reached its limit stays there when the mass doubles.
\<close>

lemma microwave_cap_reached:
  assumes "computed w scenario k = Some q" and "limits k = Some l" and "l \<le> q"
  shows "microwave_calculate_direct_emissions computed limits True w scenario k = Some l"
  using assms by (simp add: microwave_calculate_direct_emissions_def capped_def)

lemma microwave_cap_not_doubled:
  assumes "computed w scenario k = Some q"
    and "computed (w\<lparr>mass := 2 * mass w\<rparr>) scenario k = Some (2 * q)"
    and "limits k = Some l" and "0 < l" and "l \<le> q"
  shows "microwave_calculate_direct_emissions computed limits True (w\<lparr>mass := 2 * mass w\<rparr>)
           scenario k
         \<noteq> map_option (\<lambda>v. 2 * v)
             (microwave_calculate_direct_emissions computed limits True w scenario k)"
proof -
  have "l \<le> 2 * q"
    using assms(4,5) by simp
  then show ?thesis
    using assms
    by (simp add: microwave_calculate_direct_emissions_def capped_def)
qed


section \<open>Flue-gas cleaning and the combustion penalty\<close>

text \<open>
  C5. With \<open>incineration_flue_gas_efficiency = 1.0\<close> in the scenario, the three factors
  \<open>pm10_per_organic\<close>, \<open>pm25_per_organic\<close> and \<open>nox_per_waste\<close> of the copy are scaled to 0
  before the formulas are evaluated, and incineration returns exactly 0 for \<open>pm10\<close>,
  \<open>pm25\<close> and \<open>nox\<close>, for every stream.
\<close>

theorem C5_full_flue_gas_cleaning:
  assumes "incineration_keys \<subseteq> dom fs"
    and "sc ''incineration_flue_gas_efficiency'' = Some 1"
  shows "\<exists>f em. apply_scenario fs (Some sc) = Inr f
          \<and> f ''pm10_per_organic'' = Some 0 \<and> f ''pm25_per_organic'' = Some 0
          \<and> f ''nox_per_waste'' = Some 0
          \<and> incineration_calculate_direct_emissions fs w (Some sc) = Inr em
          \<and> em ''pm10'' = Some 0 \<and> em ''pm25'' = Some 0 \<and> em ''nox'' = Some 0"
proof -
  note k = incineration_keys_the[OF assms(1)]
  have e: "flue_gas_efficiency (Some sc) = Some 1"
    using assms(2) by (simp add: flue_gas_efficiency_def)
  show ?thesis
    by (simp add: incineration_result[OF k refl refl] apply_scenario_rescale[OF e k(6,7,5)] e)
qed

theorem C5_full_flue_gas_cleaning_witness:
  "incineration_keys \<subseteq> dom EMISSION_FACTORS_INCINERATION
   \<and> [''incineration_flue_gas_efficiency'' \<mapsto> 1 :: real] ''incineration_flue_gas_efficiency'' = Some 1
   \<and> (\<exists>f em. apply_scenario EMISSION_FACTORS_INCINERATION
              (Some [''incineration_flue_gas_efficiency'' \<mapsto> 1]) = Inr f
          \<and> f ''pm10_per_organic'' = Some 0 \<and> f ''pm25_per_organic'' = Some 0
          \<and> f ''nox_per_waste'' = Some 0
          \<and> incineration_calculate_direct_emissions EMISSION_FACTORS_INCINERATION
              \<lparr>mass = 100, composition = DEFAULT_COMPOSITION\<rparr>
              (Some [''incineration_flue_gas_efficiency'' \<mapsto> 1]) = Inr em
          \<and> em ''pm10'' = Some 0 \<and> em ''pm25'' = Some 0 \<and> em ''nox'' = Some 0)"
proof -
  have s: "[''incineration_flue_gas_efficiency'' \<mapsto> 1 :: real] ''incineration_flue_gas_efficiency'' = Some 1"
    by simp
  show ?thesis
    using C5_full_flue_gas_cleaning[where sc = "[''incineration_flue_gas_efficiency'' \<mapsto> 1]"
        and w = "\<lparr>mass = 100, composition = DEFAULT_COMPOSITION\<rparr>",
        OF incineration_keys_default s]
      incineration_keys_default s
    by blast
qed

text \<open>
  Over the reals: with \<open>combustion_efficiency = 0.95\<close> the two quantities are the plain
  products, and with \<open>0.90\<close> they are those products times 1.1.
\<close>

lemma combustion_penalty_boundary_exact:
  assumes "incineration_keys \<subseteq> dom fs"
  shows "\<exists>f a b em95 em90.
           apply_scenario fs scenario = Inr f
         \<and> f ''pm10_per_organic'' = Some a \<and> f ''pm25_per_organic'' = Some b
         \<and> incineration_calculate_direct_emissions
               (fs(''combustion_efficiency'' \<mapsto> 0.95)) w scenario = Inr em95
         \<and> em95 ''pm10'' = Some (mass w * total_organic (composition w) * a)
         \<and> em95 ''pm25'' = Some (mass w * total_organic (composition w) * b)
         \<and> incineration_calculate_direct_emissions
               (fs(''combustion_efficiency'' \<mapsto> 0.90)) w scenario = Inr em90
         \<and> em90 ''pm10'' = Some (mass w * total_organic (composition w) * a * 1.1)
         \<and> em90 ''pm25'' = Some (mass w * total_organic (composition w) * b * 1.1)
         \<and> (0.95 - 0.90) * 2 = (0.1 :: real)"
proof -
  note k = incineration_keys_the[OF assms(1)]
  have "incineration_keys \<subseteq> dom (fs(''combustion_efficiency'' \<mapsto> x))" for x
    using assms by auto
  note k95 = incineration_keys_the[OF this]
  obtain a b where ab: "fs ''pm10_per_organic'' = Some a" "fs ''pm25_per_organic'' = Some b"
    using k(6,7) by blast
  show ?thesis
  proof (cases "flue_gas_efficiency scenario")
    case None
    show ?thesis
      by (simp add: incineration_result[OF k95 refl refl] apply_scenario_skip[OF None] None ab
          dict_get_def)
  next
    case (Some e)
    show ?thesis
      by (simp add: incineration_result[OF k95 refl refl]
          apply_scenario_rescale[OF Some k(6,7,5)] Some dict_get_def)
  qed
qed

subsection \<open>The penalty as the code computes it\<close>

lemma float_imul_Some: "d k = Some v \<Longrightarrow> float_imul d k x = Inr (d(k \<mapsto> float_mul v x))"
  by (simp add: float_imul_def getitem_Some bind_result_simps)

lemma float_apply_scenario_skip:
  "flue_gas_efficiency scenario = None \<Longrightarrow> float_apply_scenario f scenario = Inr f"
  by (simp add: float_apply_scenario_def)

lemma float_apply_scenario_rescale:
  assumes "flue_gas_efficiency scenario = Some e"
    and "f ''pm10_per_organic'' = Some a" and "f ''pm25_per_organic'' = Some b"
    and "f ''nox_per_waste'' = Some c"
  shows "float_apply_scenario f scenario =
    Inr (f(''pm10_per_organic'' \<mapsto> float_mul a (float_sub 1 e),
           ''pm25_per_organic'' \<mapsto> float_mul b (float_sub 1 e),
           ''nox_per_waste'' \<mapsto> float_mul c (float_sub 1 e)))"
  using assms by (simp add: float_apply_scenario_def float_imul_Some bind_result_simps)

lemma binary64_095: "binary64 0.95 = 4278419646001971 / 2 ^ 52"
  by code_simp

lemma binary64_095_normal: "binary64 (19 / 20) = 4278419646001971 / 2 ^ 52"
  using binary64_095 by simp

lemma incineration_keys_getitem:
  assumes "incineration_keys \<subseteq> dom f"
  shows "getitem f ''energy_content'' = Inr (the (f ''energy_content''))"
    and "getitem f ''carbon_content_fossil'' = Inr (the (f ''carbon_content_fossil''))"
    and "getitem f ''carbon_content_biogenic'' = Inr (the (f ''carbon_content_biogenic''))"
    and "getitem f ''so2_conversion'' = Inr (the (f ''so2_conversion''))"
    and "getitem f ''nox_per_waste'' = Inr (the (f ''nox_per_waste''))"
    and "getitem f ''pm10_per_organic'' = Inr (the (f ''pm10_per_organic''))"
    and "getitem f ''pm25_per_organic'' = Inr (the (f ''pm25_per_organic''))"
    and "getitem f ''hg_volatilization'' = Inr (the (f ''hg_volatilization''))"
    and "getitem f ''pb_volatilization'' = Inr (the (f ''pb_volatilization''))"
  using assms by (auto simp add: incineration_keys_def getitem_def)

lemma float_combustion_penalty_eq:
  assumes "em ''pm10'' = Some a" and "em ''pm25'' = Some b"
  shows "float_combustion_penalty f em =
    Inr (if dict_get f ''combustion_efficiency'' 1 < binary64 0.95
         then em(''pm10'' \<mapsto> float_mul a (float_add 1 (float_mul
                    (float_sub (binary64 0.95) (dict_get f ''combustion_efficiency'' 1)) 2)),
                 ''pm25'' \<mapsto> float_mul b (float_add 1 (float_mul
                    (float_sub (binary64 0.95) (dict_get f ''combustion_efficiency'' 1)) 2)))
         else em)"
  using assms
  by (auto simp add: float_combustion_penalty_def dict_get_def getitem_def float_imul_def
      bind_result_simps Let_def binary64_095_normal split: option.splits)

lemma float_incineration_pm:
  assumes "incineration_keys \<subseteq> dom f"
    and "f ''pm10_per_organic'' = Some a" and "f ''pm25_per_organic'' = Some b"
  shows "\<exists>em. float_incineration_formulas f w = Inr em
     \<and> em ''pm10'' = Some
          (if dict_get f ''combustion_efficiency'' 1 < binary64 0.95
           then float_mul (float_mul (float_mul (mass w) (float_total_organic (composition w))) a)
                  (float_add 1 (float_mul
                    (float_sub (binary64 0.95) (dict_get f ''combustion_efficiency'' 1)) 2))
           else float_mul (float_mul (mass w) (float_total_organic (composition w))) a)
     \<and> em ''pm25'' = Some
          (if dict_get f ''combustion_efficiency'' 1 < binary64 0.95
           then float_mul (float_mul (float_mul (mass w) (float_total_organic (composition w))) b)
                  (float_add 1 (float_mul
                    (float_sub (binary64 0.95) (dict_get f ''combustion_efficiency'' 1)) 2))
           else float_mul (float_mul (mass w) (float_total_organic (composition w))) b)"
proof -
  note g = incineration_keys_getitem[OF assms(1)]
  have v: "the (f ''pm10_per_organic'') = a" "the (f ''pm25_per_organic'') = b"
    using assms(2,3) by simp_all
  show ?thesis
    unfolding float_incineration_formulas_def Let_def g bind_result_simps v
    apply (subst float_combustion_penalty_eq)
      apply simp
     apply simp
    apply simp
    done
qed

lemma binary64_090: "binary64 0.90 = 8106479329266893 / 2 ^ 53"
  by code_simp

lemma binary64_11: "binary64 1.1 = 4953959590107546 / 2 ^ 52"
  by code_simp

lemma float_penalty_090:
  "float_mul (float_sub (binary64 0.95) (binary64 0.90)) 2 = 450359962737049 / 2 ^ 52"
  unfolding float_mul_def float_sub_def by code_simp

lemma float_multiplier_090:
  "float_add 1 (float_mul (float_sub (binary64 0.95) (binary64 0.90)) 2)
     = 4953959590107545 / 2 ^ 52"
  unfolding float_add_def float_mul_def float_sub_def by code_simp

lemma float_add_one_penalty:
  "float_add 1 (450359962737049 / 2 ^ 52) = 4953959590107545 / 2 ^ 52"
  unfolding float_add_def by code_simp

lemma binary64_090_less: "binary64 0.90 < binary64 0.95"
  unfolding binary64_090 binary64_095 by simp

lemma dom_floats: "dom (floats d) = dom d"
  by (auto simp add: floats_def)

lemma fraction_float_composition:
  "fraction (float_composition wc) cat sub = binary64 (fraction wc cat sub)"
proof -
  have z: "binary64 0 = 0"
    by (simp add: binary64_def)
  show ?thesis
    by (simp add: fraction_def dict_get_def float_composition_def floats_def z
        split: option.splits)
qed

lemma fractions_default:
  "fraction DEFAULT_COMPOSITION ''general_waste'' ''non_hazardous'' = 0.65"
  "fraction DEFAULT_COMPOSITION ''infectious_waste'' ''body_fluids'' = 0.12"
  "fraction DEFAULT_COMPOSITION ''infectious_waste'' ''lab_cultures'' = 0.06"
  "fraction DEFAULT_COMPOSITION ''pharmaceutical_waste'' ''pharmaceuticals'' = 0.04"
  "fraction DEFAULT_COMPOSITION ''chemical_waste'' ''cytotoxic_organic'' = 0.015"
  "fraction DEFAULT_COMPOSITION ''radioactive_waste'' ''radioactive_organic'' = 0.002"
  "fraction DEFAULT_COMPOSITION ''sharps_waste'' ''needles_sharps_plastic'' = 0.02"
  by (simp_all add: fraction_def dict_get_def DEFAULT_COMPOSITION_def)

lemma float_sum_default:
  "float_add (float_add (float_add (float_add (float_add (float_add
       (binary64 0.65) (binary64 0.12)) (binary64 0.06)) (binary64 0.04)) (binary64 0.015))
       (binary64 0.002)) (binary64 0.02) = 8169529724050081 / 2 ^ 53"
  unfolding float_add_def by code_simp

lemma float_total_organic_default:
  "float_total_organic (float_composition DEFAULT_COMPOSITION) = 8169529724050081 / 2 ^ 53"
  unfolding float_total_organic_def fraction_float_composition fractions_default
  by (rule float_sum_default)

lemma float_pm10_base:
  "float_mul (float_mul 100 (8169529724050081 / 2 ^ 53)) (binary64 0.000031)
     = 6483338789006145 / 2 ^ 61"
  unfolding float_mul_def by code_simp

lemma float_pm10_penalised:
  "float_mul (6483338789006145 / 2 ^ 61) (4953959590107545 / 2 ^ 52)
     = 7131672667906759 / 2 ^ 61"
  unfolding float_mul_def by code_simp

lemma float_pm10_times_11:
  "float_mul (6483338789006145 / 2 ^ 61) (binary64 1.1) = 7131672667906760 / 2 ^ 61"
  unfolding float_mul_def by code_simp

lemma float_default_pm10:
  "float_incineration_calculate_direct_emissions
      ((floats EMISSION_FACTORS_INCINERATION)(''combustion_efficiency'' \<mapsto> x))
      \<lparr>mass = 100, composition = float_composition DEFAULT_COMPOSITION\<rparr> None
   = Inr em \<Longrightarrow>
   em ''pm10'' = Some
     (if x < binary64 0.95
      then float_mul (6483338789006145 / 2 ^ 61)
             (float_add 1 (float_mul (float_sub (binary64 0.95) x) 2))
      else 6483338789006145 / 2 ^ 61)"
proof -
  let ?f = "(floats EMISSION_FACTORS_INCINERATION)(''combustion_efficiency'' \<mapsto> x)"
  let ?w = "\<lparr>mass = 100, composition = float_composition DEFAULT_COMPOSITION\<rparr>"
  assume r: "float_incineration_calculate_direct_emissions ?f ?w None = Inr em"
  have k: "incineration_keys \<subseteq> dom ?f"
    using incineration_keys_default by (auto simp add: dom_floats)
  have a: "?f ''pm10_per_organic'' = Some (binary64 0.000031)"
    by (simp add: floats_def EMISSION_FACTORS_INCINERATION_def)
  have b: "?f ''pm25_per_organic'' = Some (binary64 0.0000217)"
    by (simp add: floats_def EMISSION_FACTORS_INCINERATION_def)
  have d: "dict_get ?f ''combustion_efficiency'' 1 = x"
    by (simp add: dict_get_def)
  have s: "float_incineration_calculate_direct_emissions ?f ?w None
      = float_incineration_formulas ?f ?w"
    by (simp add: float_incineration_calculate_direct_emissions_def float_apply_scenario_skip
        flue_gas_efficiency_def bind_result_simps)
  obtain em' where h: "float_incineration_formulas ?f ?w = Inr em'"
    "em' ''pm10'' = Some
       (if dict_get ?f ''combustion_efficiency'' 1 < binary64 0.95
        then float_mul (float_mul (float_mul (mass ?w) (float_total_organic (composition ?w)))
               (binary64 0.000031))
               (float_add 1 (float_mul
                 (float_sub (binary64 0.95) (dict_get ?f ''combustion_efficiency'' 1)) 2))
        else float_mul (float_mul (mass ?w) (float_total_organic (composition ?w)))
               (binary64 0.000031))"
    using float_incineration_pm[OF k a b, of ?w] by blast
  have "Inr em = (Inr em' :: emissions result)"
    using trans[OF sym[OF r[unfolded s]] h(1)] .
  then have "em' = em"
    by simp
  then show ?thesis
    using h(2)[unfolded d waste_stream.simps float_total_organic_default float_pm10_base]
    by (simp only:)
qed

text \<open>
  C6, as the code has it. With \<open>combustion_efficiency = 0.95\<close> in the factor set the test
  \<open>< 0.95\<close> fails and \<open>pm10\<close> and \<open>pm25\<close> are the products of mass, organic fraction
  and (rescaled) factor, with no penalty. With \<open>combustion_efficiency = 0.90\<close> they are
  those products times \<open>1 + penalty\<close> with \<open>penalty = (0.95 - 0.90) * 2\<close>. Over the reals
  the penalty is 0.1 and the multiplier 1.1; in the binary64 arithmetic of the code the
  penalty is \<open>450359962737049 / 2 ^ 52\<close> (0.09999999999999987) and the multiplier
  \<open>4953959590107545 / 2 ^ 52\<close> (1.0999999999999999), one unit in the last place below the
  float 1.1.
\<close>

theorem C6_penalty_in_binary64:
  assumes "incineration_keys \<subseteq> dom fs"
  shows "\<exists>f a b em95 em90.
           float_apply_scenario fs scenario = Inr f
         \<and> f ''pm10_per_organic'' = Some a \<and> f ''pm25_per_organic'' = Some b
         \<and> float_incineration_calculate_direct_emissions
               (fs(''combustion_efficiency'' \<mapsto> binary64 0.95)) w scenario = Inr em95
         \<and> em95 ''pm10'' = Some
               (float_mul (float_mul (mass w) (float_total_organic (composition w))) a)
         \<and> em95 ''pm25'' = Some
               (float_mul (float_mul (mass w) (float_total_organic (composition w))) b)
         \<and> float_incineration_calculate_direct_emissions
               (fs(''combustion_efficiency'' \<mapsto> binary64 0.90)) w scenario = Inr em90
         \<and> em90 ''pm10'' = Some
               (float_mul (float_mul (float_mul (mass w) (float_total_organic (composition w))) a)
                  (4953959590107545 / 2 ^ 52))
         \<and> em90 ''pm25'' = Some
               (float_mul (float_mul (float_mul (mass w) (float_total_organic (composition w))) b)
                  (4953959590107545 / 2 ^ 52))
         \<and> float_mul (float_sub (binary64 0.95) (binary64 0.90)) 2 = 450359962737049 / 2 ^ 52
         \<and> float_add 1 (450359962737049 / 2 ^ 52) = 4953959590107545 / 2 ^ 52
         \<and> binary64 1.1 = 4953959590107545 / 2 ^ 52 + 1 / 2 ^ 52
         \<and> (0.95 - 0.90) * 2 = (0.1 :: real) \<and> 1 + 0.1 = (1.1 :: real)"
proof -
  note k = incineration_keys_the[OF assms]
  obtain a0 b0 c0 where v: "fs ''pm10_per_organic'' = Some a0"
    "fs ''pm25_per_organic'' = Some b0" "fs ''nox_per_waste'' = Some c0"
    using k(6,7,5) by blast
  have a3: "binary64 1.1 = 4953959590107545 / 2 ^ 52 + 1 / 2 ^ 52"
    unfolding binary64_11 by simp
  have a4: "(0.95 - 0.90) * 2 = (0.1 :: real)" "1 + 0.1 = (1.1 :: real)"
    by simp_all
  note arith = float_penalty_090 float_add_one_penalty a3 a4
  have pm: "\<exists>em. float_incineration_formulas g w = Inr em
      \<and> em ''pm10'' = Some (float_mul (float_mul (mass w) (float_total_organic (composition w))) a)
      \<and> em ''pm25'' = Some (float_mul (float_mul (mass w) (float_total_organic (composition w))) b)"
    if "incineration_keys \<subseteq> dom g" "g ''pm10_per_organic'' = Some a"
      "g ''pm25_per_organic'' = Some b" "g ''combustion_efficiency'' = Some (binary64 0.95)"
    for g a b
  proof -
    have "dict_get g ''combustion_efficiency'' 1 = binary64 0.95"
      using that(4) by (simp add: dict_get_def)
    then show ?thesis
      using float_incineration_pm[OF that(1,2,3), of w] by simp
  qed
  have pm': "\<exists>em. float_incineration_formulas g w = Inr em
      \<and> em ''pm10'' = Some (float_mul
            (float_mul (float_mul (mass w) (float_total_organic (composition w))) a)
            (4953959590107545 / 2 ^ 52))
      \<and> em ''pm25'' = Some (float_mul
            (float_mul (float_mul (mass w) (float_total_organic (composition w))) b)
            (4953959590107545 / 2 ^ 52))"
    if "incineration_keys \<subseteq> dom g" "g ''pm10_per_organic'' = Some a"
      "g ''pm25_per_organic'' = Some b" "g ''combustion_efficiency'' = Some (binary64 0.90)"
    for g a b
  proof -
    have d: "dict_get g ''combustion_efficiency'' 1 = binary64 0.90"
      using that(4) by (simp add: dict_get_def)
    show ?thesis
      using float_incineration_pm[OF that(1,2,3), of w]
      unfolding d float_multiplier_090 using binary64_090_less by simp
  qed
  show ?thesis
  proof (cases "flue_gas_efficiency scenario")
    case None
    have s: "float_apply_scenario g scenario = Inr g" for g
      using None by (rule float_apply_scenario_skip)
    have k1: "incineration_keys \<subseteq> dom (fs(''combustion_efficiency'' \<mapsto> x))" for x
      using assms by auto
    obtain em95 where e95: "float_incineration_formulas
        (fs(''combustion_efficiency'' \<mapsto> binary64 0.95)) w = Inr em95"
      "em95 ''pm10'' = Some (float_mul (float_mul (mass w) (float_total_organic (composition w))) a0)"
      "em95 ''pm25'' = Some (float_mul (float_mul (mass w) (float_total_organic (composition w))) b0)"
      using pm[OF k1, of "binary64 0.95" a0 b0] v by auto
    obtain em90 where e90: "float_incineration_formulas
        (fs(''combustion_efficiency'' \<mapsto> binary64 0.90)) w = Inr em90"
      "em90 ''pm10'' = Some (float_mul
          (float_mul (float_mul (mass w) (float_total_organic (composition w))) a0)
          (4953959590107545 / 2 ^ 52))"
      "em90 ''pm25'' = Some (float_mul
          (float_mul (float_mul (mass w) (float_total_organic (composition w))) b0)
          (4953959590107545 / 2 ^ 52))"
      using pm'[OF k1, of "binary64 0.90" a0 b0] v by auto
    show ?thesis
      unfolding float_incineration_calculate_direct_emissions_def s bind_result_simps
      using v e95 e90 arith by blast
  next
    case (Some e)
    let ?r = "float_sub 1 e"
    let ?u = "\<lambda>g. g(''pm10_per_organic'' \<mapsto> float_mul a0 ?r,
        ''pm25_per_organic'' \<mapsto> float_mul b0 ?r, ''nox_per_waste'' \<mapsto> float_mul c0 ?r)"
    have s: "float_apply_scenario g scenario = Inr (?u g)"
      if "g ''pm10_per_organic'' = Some a0" "g ''pm25_per_organic'' = Some b0"
        "g ''nox_per_waste'' = Some c0" for g
      using float_apply_scenario_rescale[OF Some that] .
    have sx: "float_apply_scenario (fs(''combustion_efficiency'' \<mapsto> x)) scenario
        = Inr (?u (fs(''combustion_efficiency'' \<mapsto> x)))" for x
      by (rule s) (simp_all add: v)
    have k1: "incineration_keys \<subseteq> dom (?u (fs(''combustion_efficiency'' \<mapsto> x)))" for x
      using assms by auto
    obtain em95 where e95: "float_incineration_formulas
        (?u (fs(''combustion_efficiency'' \<mapsto> binary64 0.95))) w = Inr em95"
      "em95 ''pm10'' = Some (float_mul (float_mul (mass w) (float_total_organic (composition w)))
          (float_mul a0 ?r))"
      "em95 ''pm25'' = Some (float_mul (float_mul (mass w) (float_total_organic (composition w)))
          (float_mul b0 ?r))"
      using pm[OF k1, of "binary64 0.95" "float_mul a0 ?r" "float_mul b0 ?r"] by auto
    obtain em90 where e90: "float_incineration_formulas
        (?u (fs(''combustion_efficiency'' \<mapsto> binary64 0.90))) w = Inr em90"
      "em90 ''pm10'' = Some (float_mul
          (float_mul (float_mul (mass w) (float_total_organic (composition w))) (float_mul a0 ?r))
          (4953959590107545 / 2 ^ 52))"
      "em90 ''pm25'' = Some (float_mul
          (float_mul (float_mul (mass w) (float_total_organic (composition w))) (float_mul b0 ?r))
          (4953959590107545 / 2 ^ 52))"
      using pm'[OF k1, of "binary64 0.90" "float_mul a0 ?r" "float_mul b0 ?r"] by auto
    have f: "(?u fs) ''pm10_per_organic'' = Some (float_mul a0 ?r)"
      "(?u fs) ''pm25_per_organic'' = Some (float_mul b0 ?r)"
      by simp_all
    show ?thesis
      unfolding float_incineration_calculate_direct_emissions_def sx s[OF v] bind_result_simps
      using f e95 e90 arith by blast
  qed
qed

theorem C6_penalty_in_binary64_witness:
  "incineration_keys \<subseteq> dom (floats EMISSION_FACTORS_INCINERATION)
   \<and> (\<exists>em95 em90.
         float_incineration_calculate_direct_emissions
           ((floats EMISSION_FACTORS_INCINERATION)(''combustion_efficiency'' \<mapsto> binary64 0.95))
           \<lparr>mass = 100, composition = float_composition DEFAULT_COMPOSITION\<rparr> None = Inr em95
       \<and> em95 ''pm10'' = Some (6483338789006145 / 2 ^ 61)
       \<and> float_incineration_calculate_direct_emissions
           ((floats EMISSION_FACTORS_INCINERATION)(''combustion_efficiency'' \<mapsto> binary64 0.90))
           \<lparr>mass = 100, composition = float_composition DEFAULT_COMPOSITION\<rparr> None = Inr em90
       \<and> em90 ''pm10'' = Some (7131672667906759 / 2 ^ 61))"
proof -
  let ?fs = "floats EMISSION_FACTORS_INCINERATION"
  let ?w = "\<lparr>mass = 100, composition = float_composition DEFAULT_COMPOSITION\<rparr>"
  have k: "incineration_keys \<subseteq> dom ?fs"
    using incineration_keys_default by (simp add: dom_floats)
  obtain f a b em95 em90 where h:
    "float_apply_scenario ?fs None = Inr f"
    "f ''pm10_per_organic'' = Some a"
    "float_incineration_calculate_direct_emissions
       (?fs(''combustion_efficiency'' \<mapsto> binary64 0.95)) ?w None = Inr em95"
    "em95 ''pm10'' = Some
       (float_mul (float_mul (mass ?w) (float_total_organic (composition ?w))) a)"
    "float_incineration_calculate_direct_emissions
       (?fs(''combustion_efficiency'' \<mapsto> binary64 0.90)) ?w None = Inr em90"
    "em90 ''pm10'' = Some
       (float_mul (float_mul (float_mul (mass ?w) (float_total_organic (composition ?w))) a)
          (4953959590107545 / 2 ^ 52))"
    using C6_penalty_in_binary64[OF k, of None ?w] by blast
  have "Inr ?fs = (Inr f :: factor_set result)"
    using h(1) by (simp add: float_apply_scenario_skip flue_gas_efficiency_def)
  then have f: "f = ?fs"
    by simp
  have "Some a = Some (binary64 0.000031)"
    using h(2) unfolding f by (simp add: floats_def EMISSION_FACTORS_INCINERATION_def)
  then have a: "a = binary64 0.000031"
    by (simp only: option.inject)
  show ?thesis
    using k h(3) h(5)
      h(4)[unfolded a waste_stream.simps float_total_organic_default float_pm10_base]
      h(6)[unfolded a waste_stream.simps float_total_organic_default float_pm10_base
        float_pm10_penalised]
    by blast
qed

text \<open>
  The default stream of 100 kg, the default factors, no scenario: with 0.95 the code
  returns \<open>pm10 = 0.0028117000000000007\<close>; with 0.90 it returns
  \<open>0.0030928700000000006\<close>, which is not that value times the float 1.1
  (\<open>0.003092870000000001\<close>); and the penalty is not the float 0.1.
\<close>

theorem C6_counterexample:
  "\<not> isl (float_incineration_calculate_direct_emissions
        ((floats EMISSION_FACTORS_INCINERATION)(''combustion_efficiency'' \<mapsto> binary64 0.95))
        \<lparr>mass = 100, composition = float_composition DEFAULT_COMPOSITION\<rparr> None)
   \<and> projr (float_incineration_calculate_direct_emissions
        ((floats EMISSION_FACTORS_INCINERATION)(''combustion_efficiency'' \<mapsto> binary64 0.95))
        \<lparr>mass = 100, composition = float_composition DEFAULT_COMPOSITION\<rparr> None) ''pm10''
      = Some (6483338789006145 / 2 ^ 61)
   \<and> \<not> isl (float_incineration_calculate_direct_emissions
        ((floats EMISSION_FACTORS_INCINERATION)(''combustion_efficiency'' \<mapsto> binary64 0.90))
        \<lparr>mass = 100, composition = float_composition DEFAULT_COMPOSITION\<rparr> None)
   \<and> projr (float_incineration_calculate_direct_emissions
        ((floats EMISSION_FACTORS_INCINERATION)(''combustion_efficiency'' \<mapsto> binary64 0.90))
        \<lparr>mass = 100, composition = float_composition DEFAULT_COMPOSITION\<rparr> None) ''pm10''
      = Some (7131672667906759 / 2 ^ 61)
   \<and> float_mul (6483338789006145 / 2 ^ 61) (binary64 1.1) = 7131672667906760 / 2 ^ 61
   \<and> (7131672667906759 / 2 ^ 61 :: real) \<noteq> 7131672667906760 / 2 ^ 61
   \<and> float_mul (float_sub (binary64 0.95) (binary64 0.90)) 2 = 450359962737049 / 2 ^ 52
   \<and> binary64 0.1 = 3602879701896397 / 2 ^ 55
   \<and> (450359962737049 / 2 ^ 52 :: real) \<noteq> 3602879701896397 / 2 ^ 55"
proof -
  let ?w = "\<lparr>mass = 100, composition = float_composition DEFAULT_COMPOSITION\<rparr>"
  let ?f = "\<lambda>x. (floats EMISSION_FACTORS_INCINERATION)(''combustion_efficiency'' \<mapsto> x)"
  have k: "incineration_keys \<subseteq> dom (?f x)" for x
    using incineration_keys_default by (auto simp add: dom_floats)
  have s: "float_incineration_calculate_direct_emissions (?f x) ?w None
      = float_incineration_formulas (?f x) ?w" for x
    by (simp add: float_incineration_calculate_direct_emissions_def float_apply_scenario_skip
        flue_gas_efficiency_def bind_result_simps)
  have ex: "\<exists>em. float_incineration_calculate_direct_emissions (?f x) ?w None = Inr em" for x
    using float_incineration_pm[OF k, of x "binary64 0.000031" "binary64 0.0000217" ?w]
    unfolding s by (auto simp add: floats_def EMISSION_FACTORS_INCINERATION_def)
  obtain em95 where e95: "float_incineration_calculate_direct_emissions (?f (binary64 0.95)) ?w None
      = Inr em95"
    using ex by blast
  obtain em90 where e90: "float_incineration_calculate_direct_emissions (?f (binary64 0.90)) ?w None
      = Inr em90"
    using ex by blast
  have p95: "em95 ''pm10'' = Some (6483338789006145 / 2 ^ 61)"
    using float_default_pm10[OF e95] by simp
  have p90: "em90 ''pm10'' = Some (7131672667906759 / 2 ^ 61)"
    using float_default_pm10[OF e90] binary64_090_less
    unfolding float_multiplier_090 float_pm10_penalised by simp
  have b01: "binary64 0.1 = 3602879701896397 / 2 ^ 55"
    by code_simp
  have n1: "(7131672667906759 / 2 ^ 61 :: real) \<noteq> 7131672667906760 / 2 ^ 61"
    by simp
  have n2: "(450359962737049 / 2 ^ 52 :: real) \<noteq> 3602879701896397 / 2 ^ 55"
    by simp
  show ?thesis
    unfolding e95 e90 using p95 p90 float_pm10_times_11 float_penalty_090 b01 n1 n2
    by simp
qed

text \<open>
  C7. With a flue-gas efficiency \<open>e\<close> in the scenario and a combustion efficiency
  \<open>ce < 0.95\<close> in the factor set, \<open>pm10\<close> and \<open>pm25\<close> are the unadjusted products of
  mass, organic fraction and shared factor, times \<open>1 - e\<close> and times
  \<open>1 + (0.95 - ce) * 2\<close>: the rescaling and the penalty multiply.
\<close>

theorem C7_rescaling_and_penalty_compose:
  assumes "incineration_keys \<subseteq> dom fs"
    and "sc ''incineration_flue_gas_efficiency'' = Some e"
    and "fs ''combustion_efficiency'' = Some ce"
    and "ce < 0.95"
  shows "\<exists>a b em. fs ''pm10_per_organic'' = Some a \<and> fs ''pm25_per_organic'' = Some b
          \<and> incineration_calculate_direct_emissions fs w (Some sc) = Inr em
          \<and> em ''pm10'' = Some (mass w * total_organic (composition w) * a
                                   * (1 - e) * (1 + (0.95 - ce) * 2))
          \<and> em ''pm25'' = Some (mass w * total_organic (composition w) * b
                                   * (1 - e) * (1 + (0.95 - ce) * 2))"
proof -
  note k = incineration_keys_the[OF assms(1)]
  have e: "flue_gas_efficiency (Some sc) = Some e"
    using assms(2) by (simp add: flue_gas_efficiency_def)
  have c: "dict_get fs ''combustion_efficiency'' 1 = ce"
    using assms(3) by (simp add: dict_get_def)
  obtain a b where ab: "fs ''pm10_per_organic'' = Some a" "fs ''pm25_per_organic'' = Some b"
    using k(6,7) by blast
  show ?thesis
    using assms(4) by (simp add: incineration_result[OF k refl refl] e c ab)
qed

theorem C7_rescaling_and_penalty_compose_witness:
  "incineration_keys \<subseteq> dom (EMISSION_FACTORS_INCINERATION(''combustion_efficiency'' \<mapsto> 0.90))
   \<and> (0.90 :: real) < 0.95
   \<and> (\<exists>em. incineration_calculate_direct_emissions
              (EMISSION_FACTORS_INCINERATION(''combustion_efficiency'' \<mapsto> 0.90))
              \<lparr>mass = 100, composition = DEFAULT_COMPOSITION\<rparr>
              (Some [''incineration_flue_gas_efficiency'' \<mapsto> 0.5]) = Inr em
        \<and> em ''pm10'' = Some (100 * 0.907 * 0.000031 * (1 - 0.5) * (1 + (0.95 - 0.90) * 2))
        \<and> em ''pm25'' = Some (100 * 0.907 * 0.0000217 * (1 - 0.5) * (1 + (0.95 - 0.90) * 2)))"
proof -
  let ?fs = "EMISSION_FACTORS_INCINERATION(''combustion_efficiency'' \<mapsto> 0.90)"
  let ?w = "\<lparr>mass = 100, composition = DEFAULT_COMPOSITION\<rparr>"
  have k: "incineration_keys \<subseteq> dom ?fs"
    using incineration_keys_default by auto
  have s: "[''incineration_flue_gas_efficiency'' \<mapsto> 0.5 :: real] ''incineration_flue_gas_efficiency'' = Some 0.5"
    by simp
  have c: "?fs ''combustion_efficiency'' = Some 0.90"
    by simp
  have l: "(0.90 :: real) < 0.95"
    by simp
  have v: "?fs ''pm10_per_organic'' = Some 0.000031" "?fs ''pm25_per_organic'' = Some 0.0000217"
    by (simp_all add: EMISSION_FACTORS_INCINERATION_def)
  obtain a b em where h: "?fs ''pm10_per_organic'' = Some a" "?fs ''pm25_per_organic'' = Some b"
    "incineration_calculate_direct_emissions ?fs ?w
        (Some [''incineration_flue_gas_efficiency'' \<mapsto> 0.5]) = Inr em"
    "em ''pm10'' = Some (mass ?w * total_organic (composition ?w) * a
                                   * (1 - 0.5) * (1 + (0.95 - 0.90) * 2))"
    "em ''pm25'' = Some (mass ?w * total_organic (composition ?w) * b
                                   * (1 - 0.5) * (1 + (0.95 - 0.90) * 2))"
    using C7_rescaling_and_penalty_compose[where fs = ?fs
        and sc = "[''incineration_flue_gas_efficiency'' \<mapsto> 0.5]" and w = ?w, OF k s c l]
    by blast
  have ab: "a = 0.000031" "b = 0.0000217"
    using h(1,2) unfolding v by simp_all
  show ?thesis
    using h(3-5) k l
    unfolding ab waste_stream.simps total_organic_default
    by blast
qed

section \<open>Partial compositions\<close>

lemma fraction_explicit_zero:
  assumes "entry c cat sub = None"
  shows "fraction (c(cat \<mapsto> (dict_get c cat Map.empty)(sub \<mapsto> 0))) cat' sub' = fraction c cat' sub'"
  using assms
  by (auto simp add: fraction_def entry_def dict_get_def split: option.splits)

lemma fraction_missing: "entry c cat sub = None \<Longrightarrow> fraction c cat sub = 0"
  by (simp add: fraction_entry)

lemma composition_terms_explicit_zero:
  assumes "entry c cat sub = None"
  shows "total_organic (c(cat \<mapsto> (dict_get c cat Map.empty)(sub \<mapsto> 0))) = total_organic c"
    and "fossil_organic (c(cat \<mapsto> (dict_get c cat Map.empty)(sub \<mapsto> 0))) = fossil_organic c"
    and "biogenic_organic (c(cat \<mapsto> (dict_get c cat Map.empty)(sub \<mapsto> 0))) = biogenic_organic c"
    and "total_chlor (c(cat \<mapsto> (dict_get c cat Map.empty)(sub \<mapsto> 0))) = total_chlor c"
  by (simp_all add: total_organic_def fossil_organic_def biogenic_organic_def total_chlor_def
      fraction_explicit_zero[OF assms])

lemma calls_explicit_zero:
  assumes "entry (composition w) cat sub = None"
  shows "incineration_calculate_direct_emissions fs
           (w\<lparr>composition := (composition w)(cat \<mapsto> (dict_get (composition w) cat Map.empty)(sub \<mapsto> 0))\<rparr>) scenario
         = incineration_calculate_direct_emissions fs w scenario"
    and "pyrolysis_calculate_direct_emissions fs
           (w\<lparr>composition := (composition w)(cat \<mapsto> (dict_get (composition w) cat Map.empty)(sub \<mapsto> 0))\<rparr>) scenario
         = pyrolysis_calculate_direct_emissions fs w scenario"
  by (simp_all add: incineration_calculate_direct_emissions_def incineration_formulas_def
      incineration_energy_def pyrolysis_calculate_direct_emissions_def Let_def
      composition_terms_explicit_zero[OF assms] fraction_explicit_zero[OF assms])

lemma calls_succeed:
  assumes "required_keys pk \<subseteq> dom fs"
  shows "\<exists>em. calculate_direct_emissions pk fs w scenario = Inr em"
proof (cases pk)
  case Incineration
  then have "incineration_keys \<subseteq> dom fs"
    using assms by (simp add: required_keys_def)
  note k = incineration_keys_the[OF this]
  show ?thesis
    unfolding calculate_direct_emissions_def Incineration process_kind.case
      incineration_result[OF k refl refl]
    by blast
next
  case Pyrolysis
  then have "pyrolysis_keys \<subseteq> dom fs"
    using assms by (simp add: required_keys_def)
  note k = pyrolysis_keys_the[OF this]
  show ?thesis
    unfolding calculate_direct_emissions_def Pyrolysis process_kind.case
      pyrolysis_result[OF k]
    by blast
qed

text \<open>
  C8. On a factor set that has the factors the process subscripts, the call returns
  emissions for every stream, whatever categories or subcategories its composition
  lacks, the empty composition included. A lacking entry counts as the fraction 0:
  writing it into the composition as an explicit 0 changes nothing in the result.
\<close>

theorem C8_missing_entries_count_as_zero:
  assumes "required_keys pk \<subseteq> dom fs"
  shows "(\<exists>em. calculate_direct_emissions pk fs w scenario = Inr em)
       \<and> (\<forall>cat sub. entry (composition w) cat sub = None \<longrightarrow>
             fraction (composition w) cat sub = 0
           \<and> calculate_direct_emissions pk fs
               (w\<lparr>composition :=
                   (composition w)(cat \<mapsto> (dict_get (composition w) cat Map.empty)(sub \<mapsto> 0))\<rparr>)
               scenario
             = calculate_direct_emissions pk fs w scenario)"
  using calls_succeed[OF assms]
  by (cases pk) (simp_all add: calculate_direct_emissions_def calls_explicit_zero fraction_missing)

theorem C8_missing_entries_count_as_zero_witness:
  "required_keys Pyrolysis \<subseteq> dom EMISSION_FACTORS_PYROLYSIS
   \<and> entry Map.empty ''general_waste'' ''non_hazardous'' = None
   \<and> (\<exists>em. calculate_direct_emissions Pyrolysis EMISSION_FACTORS_PYROLYSIS
          \<lparr>mass = 100, composition = Map.empty\<rparr> None = Inr em)
   \<and> fraction Map.empty ''general_waste'' ''non_hazardous'' = 0
   \<and> calculate_direct_emissions Pyrolysis EMISSION_FACTORS_PYROLYSIS
        \<lparr>mass = 100, composition = [''general_waste'' \<mapsto> [''non_hazardous'' \<mapsto> 0]]\<rparr> None
      = calculate_direct_emissions Pyrolysis EMISSION_FACTORS_PYROLYSIS
        \<lparr>mass = 100, composition = Map.empty\<rparr> None"
proof -
  have k: "required_keys Pyrolysis \<subseteq> dom EMISSION_FACTORS_PYROLYSIS"
    by (simp add: required_keys_def pyrolysis_keys_default)
  have e: "entry Map.empty ''general_waste'' ''non_hazardous'' = None"
    by (simp add: entry_def dict_get_def)
  show ?thesis
    using C8_missing_entries_count_as_zero[OF k, of "\<lparr>mass = 100, composition = Map.empty\<rparr>" None] k e
    by (simp add: dict_get_def)
qed

section \<open>The pollutants returned\<close>

text \<open>
  C10. For every stream and scenario, incineration returns a dictionary whose keys are
  exactly \<open>co2_fossil\<close>, \<open>co2_biogenic\<close>, \<open>so2\<close>, \<open>nox\<close>, \<open>pm10\<close>, \<open>pm25\<close>, \<open>hg\<close>, \<open>pb\<close>,
  and pyrolysis one whose keys are exactly \<open>co2_fossil\<close>, \<open>ch4_fossil\<close>, \<open>nmvoc\<close>,
  \<open>pahs\<close>, \<open>dioxin\<close>, \<open>hg\<close>, \<open>pb\<close>, whatever the magnitudes.
\<close>

theorem C10_pollutant_keys:
  assumes "incineration_keys \<subseteq> dom fi"
    and "pyrolysis_keys \<subseteq> dom fp"
  shows "(\<exists>em. incineration_calculate_direct_emissions fi w si = Inr em
            \<and> dom em = {''co2_fossil'', ''co2_biogenic'', ''so2'', ''nox'', ''pm10'', ''pm25'',
                        ''hg'', ''pb''})
       \<and> (\<exists>em. pyrolysis_calculate_direct_emissions fp w sp = Inr em
            \<and> dom em = {''co2_fossil'', ''ch4_fossil'', ''nmvoc'', ''pahs'', ''dioxin'',
                        ''hg'', ''pb''})"
proof -
  note k = incineration_keys_the[OF assms(1)]
  note k' = pyrolysis_keys_the[OF assms(2)]
  show ?thesis
    unfolding incineration_result[OF k refl refl] pyrolysis_result[OF k']
    by auto
qed

theorem C10_pollutant_keys_witness:
  "incineration_keys \<subseteq> dom EMISSION_FACTORS_INCINERATION
   \<and> pyrolysis_keys \<subseteq> dom EMISSION_FACTORS_PYROLYSIS
   \<and> (\<exists>em. incineration_calculate_direct_emissions EMISSION_FACTORS_INCINERATION
          \<lparr>mass = 100, composition = DEFAULT_COMPOSITION\<rparr> None = Inr em
        \<and> dom em = {''co2_fossil'', ''co2_biogenic'', ''so2'', ''nox'', ''pm10'', ''pm25'',
                    ''hg'', ''pb''})
   \<and> (\<exists>em. pyrolysis_calculate_direct_emissions EMISSION_FACTORS_PYROLYSIS
          \<lparr>mass = 100, composition = DEFAULT_COMPOSITION\<rparr> None = Inr em
        \<and> dom em = {''co2_fossil'', ''ch4_fossil'', ''nmvoc'', ''pahs'', ''dioxin'',
                    ''hg'', ''pb''})"
  using C10_pollutant_keys[OF incineration_keys_default pyrolysis_keys_default,
      of "\<lparr>mass = 100, composition = DEFAULT_COMPOSITION\<rparr>" None None]
    incineration_keys_default pyrolysis_keys_default
  by blast

section \<open>What a call leaves in the store\<close>

lemma store_imul_frame:
  assumes "store_imul f k x s = (r, s')"
  shows "streams s' = streams s \<and> length (dicts s') = length (dicts s)
       \<and> take f (dicts s') = take f (dicts s)"
  using assms by (auto simp add: store_imul_def split: sum.splits)

lemma incineration_on_store_frame:
  "streams (snd (incineration_on_store self waste scenario s)) = streams s
   \<and> take (length (dicts s)) (dicts (snd (incineration_on_store self waste scenario s))) = dicts s"
proof -
  let ?n = "length (dicts s)"
  let ?s0 = "s\<lparr>dicts := dicts s @ [dicts s ! factors self]\<rparr>"
  have init: "streams ?s0 = streams s \<and> take ?n (dicts ?s0) = dicts s"
    by simp
  have step: "streams (snd (store_imul ?n k x t)) = streams s
      \<and> take ?n (dicts (snd (store_imul ?n k x t))) = dicts s"
    if "streams t = streams s \<and> take ?n (dicts t) = dicts s" for k x t
    using that store_imul_frame[of ?n k x t "fst (store_imul ?n k x t)" "snd (store_imul ?n k x t)"]
    by simp
  show ?thesis
  proof (cases "flue_gas_efficiency scenario")
    case None
    then show ?thesis
      by (simp add: incineration_on_store_def copy_deepcopy_def)
  next
    case (Some e)
    obtain r1 s1 where 1: "store_imul ?n ''pm10_per_organic'' (1 - e) ?s0 = (r1, s1)"
      by (cases "store_imul ?n ''pm10_per_organic'' (1 - e) ?s0")
    obtain r2 s2 where 2: "store_imul ?n ''pm25_per_organic'' (1 - e) s1 = (r2, s2)"
      by (cases "store_imul ?n ''pm25_per_organic'' (1 - e) s1")
    obtain r3 s3 where 3: "store_imul ?n ''nox_per_waste'' (1 - e) s2 = (r3, s3)"
      by (cases "store_imul ?n ''nox_per_waste'' (1 - e) s2")
    have i1: "streams s1 = streams s \<and> take ?n (dicts s1) = dicts s"
      using step[OF init, of "''pm10_per_organic''" "1 - e"] 1 by simp
    have i2: "streams s2 = streams s \<and> take ?n (dicts s2) = dicts s"
      using step[OF i1, of "''pm25_per_organic''" "1 - e"] 2 by simp
    have i3: "streams s3 = streams s \<and> take ?n (dicts s3) = dicts s"
      using step[OF i2, of "''nox_per_waste''" "1 - e"] 3 by simp
    show ?thesis
      using i1 i2 i3
      by (simp add: incineration_on_store_def copy_deepcopy_def Some 1 2 3 split: sum.splits)
  qed
qed

text \<open>The call on the store returns what the call on the values returns.\<close>

lemma incineration_on_store_result:
  "fst (incineration_on_store self waste scenario s)
     = incineration_calculate_direct_emissions (dicts s ! factors self) (streams s ! waste)
         scenario"
  by (auto simp add: incineration_on_store_def copy_deepcopy_def store_imul_def
      incineration_calculate_direct_emissions_def apply_scenario_def bind_result_def
      split: option.splits sum.splits)

lemma on_store_result:
  "fst (calculate_direct_emissions_on_store self waste scenario s)
     = calculate_direct_emissions (kind self) (dicts s ! factors self) (streams s ! waste)
         scenario"
  by (cases "kind self")
    (simp_all add: calculate_direct_emissions_on_store_def calculate_direct_emissions_def
      incineration_on_store_result pyrolysis_on_store_def)

text \<open>
  A call with a flue-gas efficiency of 0.5 on a store that holds the default factors and
  the default stream: the store afterwards holds the factors and, behind them, the
  rescaled copy.
\<close>

lemma incineration_on_store_default: "snd (calculate_direct_emissions_on_store
        \<lparr>kind = Incineration, name = ''Incineration'', factors = 0\<rparr> 0
        (Some [''incineration_flue_gas_efficiency'' \<mapsto> 0.5])
        \<lparr>dicts = [EMISSION_FACTORS_INCINERATION],
         streams = [\<lparr>mass = 100, composition = DEFAULT_COMPOSITION\<rparr>]\<rparr>)
   = \<lparr>dicts = [EMISSION_FACTORS_INCINERATION,
        EMISSION_FACTORS_INCINERATION(''pm10_per_organic'' \<mapsto> 0.000031 * (1 - 0.5),
          ''pm25_per_organic'' \<mapsto> 0.0000217 * (1 - 0.5),
          ''nox_per_waste'' \<mapsto> 4.3 / 10 ^ 6 * (1 - 0.5))],
      streams = [\<lparr>mass = 100, composition = DEFAULT_COMPOSITION\<rparr>]\<rparr>"
proof -
  have v: "EMISSION_FACTORS_INCINERATION ''pm10_per_organic'' = Some 0.000031"
    "EMISSION_FACTORS_INCINERATION ''pm25_per_organic'' = Some 0.0000217"
    "EMISSION_FACTORS_INCINERATION ''nox_per_waste'' = Some (4.3 / 10 ^ 6)"
    by (simp_all add: EMISSION_FACTORS_INCINERATION_def)
  show ?thesis
    by (simp add: calculate_direct_emissions_on_store_def incineration_on_store_def
      copy_deepcopy_def store_imul_def flue_gas_efficiency_def imul_def getitem_def
      bind_result_def v)
qed

text \<open>
  C9. A call of either process, with any scenario and whether it returns or raises,
  leaves every dictionary that existed before it as it was, the process's shared factor
  set among them, and leaves every stream as it was: the rescaling writes to the copy
  only, which is a new dictionary. In particular the mass and the composition of the
  stream the call was given are what they were.
\<close>

theorem C9_calls_leave_factors_and_stream:
  assumes "factors self < length (dicts s)"
  shows "take (length (dicts s))
           (dicts (snd (calculate_direct_emissions_on_store self waste scenario s))) = dicts s
       \<and> dicts (snd (calculate_direct_emissions_on_store self waste scenario s)) ! factors self
           = dicts s ! factors self
       \<and> streams (snd (calculate_direct_emissions_on_store self waste scenario s)) = streams s
       \<and> mass (streams (snd (calculate_direct_emissions_on_store self waste scenario s)) ! waste)
           = mass (streams s ! waste)
       \<and> composition
             (streams (snd (calculate_direct_emissions_on_store self waste scenario s)) ! waste)
           = composition (streams s ! waste)"
proof (cases "kind self")
  case Incineration
  have t: "take (length (dicts s)) (dicts (snd (incineration_on_store self waste scenario s)))
      = dicts s"
    using incineration_on_store_frame by blast
  have "dicts (snd (incineration_on_store self waste scenario s)) ! factors self
      = take (length (dicts s)) (dicts (snd (incineration_on_store self waste scenario s)))
          ! factors self"
    using assms by simp
  then show ?thesis
    using incineration_on_store_frame[of self waste scenario s] t
    by (simp add: calculate_direct_emissions_on_store_def Incineration)
next
  case Pyrolysis
  then show ?thesis
    by (simp add: calculate_direct_emissions_on_store_def pyrolysis_on_store_def)
qed

theorem C9_calls_leave_factors_and_stream_witness:
  "factors \<lparr>kind = Incineration, name = ''Incineration'', factors = 0\<rparr>
      < length (dicts \<lparr>dicts = [EMISSION_FACTORS_INCINERATION],
                       streams = [\<lparr>mass = 100, composition = DEFAULT_COMPOSITION\<rparr>]\<rparr>)
   \<and> dicts (snd (calculate_direct_emissions_on_store
        \<lparr>kind = Incineration, name = ''Incineration'', factors = 0\<rparr> 0
        (Some [''incineration_flue_gas_efficiency'' \<mapsto> 0.5])
        \<lparr>dicts = [EMISSION_FACTORS_INCINERATION],
         streams = [\<lparr>mass = 100, composition = DEFAULT_COMPOSITION\<rparr>]\<rparr>)) ! 0
      = EMISSION_FACTORS_INCINERATION
   \<and> streams (snd (calculate_direct_emissions_on_store
        \<lparr>kind = Incineration, name = ''Incineration'', factors = 0\<rparr> 0
        (Some [''incineration_flue_gas_efficiency'' \<mapsto> 0.5])
        \<lparr>dicts = [EMISSION_FACTORS_INCINERATION],
         streams = [\<lparr>mass = 100, composition = DEFAULT_COMPOSITION\<rparr>]\<rparr>))
      = [\<lparr>mass = 100, composition = DEFAULT_COMPOSITION\<rparr>]
   \<and> (dicts (snd (calculate_direct_emissions_on_store
        \<lparr>kind = Incineration, name = ''Incineration'', factors = 0\<rparr> 0
        (Some [''incineration_flue_gas_efficiency'' \<mapsto> 0.5])
        \<lparr>dicts = [EMISSION_FACTORS_INCINERATION],
         streams = [\<lparr>mass = 100, composition = DEFAULT_COMPOSITION\<rparr>]\<rparr>)) ! 0)
        ''nox_per_waste'' = Some (4.3 / 10 ^ 6)
   \<and> (dicts (snd (calculate_direct_emissions_on_store
        \<lparr>kind = Incineration, name = ''Incineration'', factors = 0\<rparr> 0
        (Some [''incineration_flue_gas_efficiency'' \<mapsto> 0.5])
        \<lparr>dicts = [EMISSION_FACTORS_INCINERATION],
         streams = [\<lparr>mass = 100, composition = DEFAULT_COMPOSITION\<rparr>]\<rparr>)) ! 1)
        ''nox_per_waste'' = Some (4.3 / 10 ^ 6 * (1 - 0.5))"
proof -
  let ?self = "\<lparr>kind = Incineration, name = ''Incineration'', factors = 0\<rparr>"
  let ?s = "\<lparr>dicts = [EMISSION_FACTORS_INCINERATION],
             streams = [\<lparr>mass = 100, composition = DEFAULT_COMPOSITION\<rparr>]\<rparr>"
  let ?sc = "Some [''incineration_flue_gas_efficiency'' \<mapsto> 0.5 :: real]"
  have h: "factors ?self < length (dicts ?s)"
    by simp
  have n: "EMISSION_FACTORS_INCINERATION ''nox_per_waste'' = Some (4.3 / 10 ^ 6)"
    by (simp add: EMISSION_FACTORS_INCINERATION_def)
  have c: "(dicts (snd (calculate_direct_emissions_on_store ?self 0 ?sc ?s)) ! 1)
        ''nox_per_waste'' = Some (4.3 / 10 ^ 6 * (1 - 0.5))"
    unfolding incineration_on_store_default by simp
  have u: "dicts (snd (calculate_direct_emissions_on_store ?self 0 ?sc ?s)) ! 0
        = EMISSION_FACTORS_INCINERATION"
    "streams (snd (calculate_direct_emissions_on_store ?self 0 ?sc ?s))
        = [\<lparr>mass = 100, composition = DEFAULT_COMPOSITION\<rparr>]"
    using C9_calls_leave_factors_and_stream[OF h, of 0 ?sc] by simp_all
  show ?thesis
    using h c u n by simp
qed

end
